theory Spec2Isabelle
  imports Complex_Main "HOL-Library.Sublist"
begin

section \<open>Strings of the page\<close>

text \<open>
  A JavaScript string is a sequence of code units. The model takes the code units below
  256, one \<^typ>\<open>char\<close> each, so that \<open>length\<close> is the source's \<open>.length\<close>. On these
  the white space removed by \<open>trim()\<close> is TAB, LF, VT, FF, CR, SPACE and NBSP, and
  \<open>toLowerCase()\<close> maps \<open>A..Z\<close> and the accented capitals \<open>0xC0..0xDE\<close> (without the
  multiplication sign \<open>0xD7\<close>) to the letter 32 places further on.
\<close>

definition isWhiteSpace :: "char \<Rightarrow> bool" where
  "isWhiteSpace c = (of_char c \<in> {9, 10, 11, 12, 13, 32, 160 :: nat})"

definition trim :: "string \<Rightarrow> string" where
  "trim s = rev (dropWhile isWhiteSpace (rev (dropWhile isWhiteSpace s)))"

definition lowerChar :: "char \<Rightarrow> char" where
  "lowerChar c =
     (let n = (of_char c :: nat) in
      if (65 \<le> n \<and> n \<le> 90) \<or> (192 \<le> n \<and> n \<le> 222 \<and> n \<noteq> 215)
      then char_of (n + 32) else c)"

definition toLowerCase :: "string \<Rightarrow> string" where
  "toLowerCase s = map lowerChar s"

text \<open>\<open>s.includes(needle)\<close>: the needle occurs as a contiguous run of \<open>s\<close>.\<close>

fun strIncludes :: "string \<Rightarrow> string \<Rightarrow> bool" where
  "strIncludes [] needle = (needle = [])"
| "strIncludes (c # cs) needle = (prefix needle (c # cs) \<or> strIncludes cs needle)"

text \<open>
  \<open>s.split(sep)\<close> for a non-empty separator string, \<open>parts.join(sep)\<close>,
  \<open>s.split(/\s+/)\<close> (cut at each run of white space) and \<open>s.split(/[^a-z]/)\<close> (cut at
  each single character that is not a lower-case ASCII letter). The accumulator holds
  the current piece in reverse.
\<close>

fun splitAcc :: "string \<Rightarrow> string \<Rightarrow> string \<Rightarrow> string list" where
  "splitAcc sep cur [] = [rev cur]"
| "splitAcc sep cur (c # cs) =
     (if sep \<noteq> [] \<and> prefix sep (c # cs)
      then rev cur # splitAcc sep [] (drop (length sep - 1) cs)
      else splitAcc sep (c # cur) cs)"

definition split :: "string \<Rightarrow> string \<Rightarrow> string list" where
  "split sep s = splitAcc sep [] s"

fun join :: "string \<Rightarrow> string list \<Rightarrow> string" where
  "join sep [] = []"
| "join sep [x] = x"
| "join sep (x # y # ys) = x @ sep @ join sep (y # ys)"

function splitWhiteSpaceAcc :: "string \<Rightarrow> string \<Rightarrow> string list" where
  "splitWhiteSpaceAcc cur [] = [rev cur]"
| "splitWhiteSpaceAcc cur (c # cs) =
     (if isWhiteSpace c then rev cur # splitWhiteSpaceAcc [] (dropWhile isWhiteSpace cs)
      else splitWhiteSpaceAcc (c # cur) cs)"
  by pat_completeness auto
termination
  by (relation "measure (\<lambda>(cur, s). length s)")
     (auto simp: le_imp_less_Suc length_dropWhile_le)

definition splitWhiteSpace :: "string \<Rightarrow> string list" where
  "splitWhiteSpace s = splitWhiteSpaceAcc [] s"

definition isLowerAlpha :: "char \<Rightarrow> bool" where
  "isLowerAlpha c = (97 \<le> (of_char c :: nat) \<and> (of_char c :: nat) \<le> 122)"

fun splitNonAlphaAcc :: "string \<Rightarrow> string \<Rightarrow> string list" where
  "splitNonAlphaAcc cur [] = [rev cur]"
| "splitNonAlphaAcc cur (c # cs) =
     (if isLowerAlpha c then splitNonAlphaAcc (c # cur) cs
      else rev cur # splitNonAlphaAcc [] cs)"

definition splitNonAlpha :: "string \<Rightarrow> string list" where
  "splitNonAlpha s = splitNonAlphaAcc [] s"

text \<open>\<open>.filter(Boolean)\<close> on strings drops the empty ones.\<close>

definition filterBoolean :: "string list \<Rightarrow> string list" where
  "filterBoolean parts = filter (\<lambda>part. part \<noteq> []) parts"

text \<open>The decimal digits of an array length, as a template literal prints them.\<close>

fun showNat :: "nat \<Rightarrow> string" where
  "showNat n = (if n < 10 then [char_of (48 + n)]
                else showNat (n div 10) @ [char_of (48 + n mod 10)])"

text \<open>\<open>if (!acc.includes(x)) acc.push(x)\<close> over a list: each value once, first seen first.\<close>

definition pushNew :: "'a list \<Rightarrow> 'a \<Rightarrow> 'a list" where
  "pushNew acc x = (if x \<in> set acc then acc else acc @ [x])"

text \<open>\<open>new Set(xs).size\<close>.\<close>

definition setSize :: "'a list \<Rightarrow> nat" where
  "setSize xs = length (remdups xs)"

section \<open>JavaScript numbers of the scoring\<close>

text \<open>
  Confidences and scores are JavaScript numbers. Finite values are modelled by reals;
  the three special values are kept, because the orchestrator's score of an empty
  conversation is \<open>0 / 0\<close>.
\<close>

datatype jsnum = Num real | PosInf | NegInf | NaN

fun js_div :: "jsnum \<Rightarrow> jsnum \<Rightarrow> jsnum" where
  "js_div (Num a) (Num b) =
     (if b \<noteq> 0 then Num (a / b)
      else if a = 0 then NaN else if a > 0 then PosInf else NegInf)"
| "js_div NaN _ = NaN"
| "js_div _ NaN = NaN"
| "js_div (Num a) _ = Num 0"
| "js_div PosInf (Num b) = (if b < 0 then NegInf else PosInf)"
| "js_div NegInf (Num b) = (if b < 0 then PosInf else NegInf)"
| "js_div _ _ = NaN"

fun js_mul :: "jsnum \<Rightarrow> jsnum \<Rightarrow> jsnum" where
  "js_mul (Num a) (Num b) = Num (a * b)"
| "js_mul NaN _ = NaN"
| "js_mul _ NaN = NaN"
| "js_mul (Num a) PosInf = (if a = 0 then NaN else if a > 0 then PosInf else NegInf)"
| "js_mul (Num a) NegInf = (if a = 0 then NaN else if a > 0 then NegInf else PosInf)"
| "js_mul PosInf (Num b) = (if b = 0 then NaN else if b > 0 then PosInf else NegInf)"
| "js_mul NegInf (Num b) = (if b = 0 then NaN else if b > 0 then NegInf else PosInf)"
| "js_mul PosInf PosInf = PosInf"
| "js_mul NegInf NegInf = PosInf"
| "js_mul PosInf NegInf = NegInf"
| "js_mul NegInf PosInf = NegInf"

fun js_add :: "jsnum \<Rightarrow> jsnum \<Rightarrow> jsnum" where
  "js_add (Num a) (Num b) = Num (a + b)"
| "js_add NaN _ = NaN"
| "js_add _ NaN = NaN"
| "js_add PosInf NegInf = NaN"
| "js_add NegInf PosInf = NaN"
| "js_add PosInf _ = PosInf"
| "js_add _ PosInf = PosInf"
| "js_add NegInf _ = NegInf"
| "js_add _ NegInf = NegInf"

text \<open>\<open>a > b\<close>: false as soon as one side is NaN.\<close>

fun js_gt :: "jsnum \<Rightarrow> jsnum \<Rightarrow> bool" where
  "js_gt (Num a) (Num b) = (a > b)"
| "js_gt NaN _ = False"
| "js_gt _ NaN = False"
| "js_gt PosInf PosInf = False"
| "js_gt PosInf _ = True"
| "js_gt _ PosInf = False"
| "js_gt NegInf _ = False"
| "js_gt _ NegInf = True"

section \<open>The wire types (shared/types/conversation.ts)\<close>

datatype role = User | Assistant

record elementInfo =
  info_tagName :: string
  info_className :: string

record formatAnalysis =
  hasCodeBlocks :: bool
  codeLanguages :: "string list"
  hasHeadings :: bool
  headingLevels :: "nat list"
  hasLists :: bool
  hasTables :: bool

record ConversationMessage =
  m_index :: int
  m_timestamp :: int
  m_role :: role
  m_html :: string
  m_text :: string
  m_elementInfo :: elementInfo

record AssistantMessage = ConversationMessage +
  m_formatAnalysis :: formatAnalysis

record roundMetadata =
  extractionConfidence :: real
  elementCount :: nat

record ConversationRound =
  r_index :: int
  r_timestamp :: int
  user :: ConversationMessage
  assistant :: AssistantMessage
  r_metadata :: roundMetadata

record pageInfo =
  title :: string
  urlHash :: string
  userAgent :: string

record conversationMetadata =
  sourceUrl :: string
  extractedAt :: string
  extractorVersion :: string
  strategyUsed :: string
  confidenceScore :: real
  pageInfo :: pageInfo

record extractionStats =
  totalRounds :: nat
  successRate :: nat
  processingTimeMs :: int
  domElementsAnalyzed :: nat

record ExtractedConversation =
  version :: string
  metadata :: conversationMetadata
  conversation :: "ConversationRound list"
  extractionStats :: extractionStats

text \<open>
  The interfaces \<open>UserMessage\<close> and \<open>AssistantMessage\<close> give \<open>role\<close> the literal types
  \<open>'user'\<close> and \<open>'assistant'\<close>. A round that inhabits \<open>ConversationRound\<close> is one with
  these two roles.
\<close>

definition roundTyped :: "ConversationRound \<Rightarrow> bool" where
  "roundTyped r = (m_role (user r) = User \<and> m_role (assistant r) = Assistant)"

section \<open>The rendered tree\<close>

text \<open>
  An element is what the strategies read of it: tag, id, class attribute, text content,
  serialized markup, the top and bottom of its box, its computed style, and its child
  elements in order. The strategies hold references to elements of one tree; a reference
  is the path of child positions from the root element, so that two elements with the
  same content stay two elements.
\<close>

record domElement =
  tagName :: string
  elementId :: string
  className :: string
  textContent :: string
  outerHTML :: string
  rectTop :: real
  rectBottom :: real
  computedStyle :: "string \<Rightarrow> string"

datatype element = Element (props: domElement) (children: "element list")

type_synonym handle = "nat list"

text \<open>
  The element a reference points to. Every reference the strategies hold comes from
  \<open>querySelectorAll\<close> or a parent or sibling link and is a path of the tree; on any
  other path the walk stops at the last element it reached.
\<close>

fun nodeAt :: "element \<Rightarrow> handle \<Rightarrow> element" where
  "nodeAt e [] = e"
| "nodeAt e (i # p) = (if i < length (children e) then nodeAt (children e ! i) p else e)"

text \<open>The proper descendants of an element in document order, as paths below it.\<close>

fun descendants :: "element \<Rightarrow> handle list"
  and descendantsFrom :: "nat \<Rightarrow> element list \<Rightarrow> handle list" where
  "descendants (Element d cs) = descendantsFrom 0 cs"
| "descendantsFrom i [] = []"
| "descendantsFrom i (c # cs) =
     [i] # map ((#) i) (descendants c) @ descendantsFrom (Suc i) cs"

definition querySelectorAll :: "element \<Rightarrow> handle \<Rightarrow> (domElement \<Rightarrow> bool) \<Rightarrow> handle list" where
  "querySelectorAll doc el sel =
     filter (\<lambda>p. sel (props (nodeAt doc p))) (map ((@) el) (descendants (nodeAt doc el)))"

definition selAll :: "domElement \<Rightarrow> bool" where
  "selAll d = True"

definition selTags :: "string list \<Rightarrow> domElement \<Rightarrow> bool" where
  "selTags names d = (toLowerCase (tagName d) \<in> set names)"

definition selClassContains :: "string \<Rightarrow> domElement \<Rightarrow> bool" where
  "selClassContains part d = strIncludes (className d) part"

definition querySelectorFinds :: "element \<Rightarrow> handle \<Rightarrow> (domElement \<Rightarrow> bool) \<Rightarrow> bool" where
  "querySelectorFinds doc el sel = (querySelectorAll doc el sel \<noteq> [])"

definition parentElement :: "element \<Rightarrow> handle \<Rightarrow> handle option" where
  "parentElement doc el = (if el = [] then None else Some (butlast el))"

definition previousElementSibling :: "element \<Rightarrow> handle \<Rightarrow> handle option" where
  "previousElementSibling doc el =
     (if el = [] \<or> last el = 0 then None else Some (butlast el @ [last el - 1]))"

definition nextElementSibling :: "element \<Rightarrow> handle \<Rightarrow> handle option" where
  "nextElementSibling doc el =
     (if el \<noteq> [] \<and> Suc (last el) < length (children (nodeAt doc (butlast el)))
      then Some (butlast el @ [Suc (last el)]) else None)"

text \<open>\<open>other.contains(el)\<close>: \<open>el\<close> is \<open>other\<close> or lies below it.\<close>

definition contains :: "handle \<Rightarrow> handle \<Rightarrow> bool" where
  "contains other el = prefix other el"

text \<open>\<open>xs.indexOf(x)\<close>: the first position of \<open>x\<close>, or \<open>-1\<close>.\<close>

fun indexOf :: "'a list \<Rightarrow> 'a \<Rightarrow> int" where
  "indexOf [] x = -1"
| "indexOf (y # ys) x =
     (if y = x then 0 else (let r = indexOf ys x in if r < 0 then -1 else r + 1))"

section \<open>The host page\<close>

text \<open>
  What the page, the clock and the two library calls answer during one call of
  \<open>analyze()\<close>: \<open>startTime\<close> is the clock at construction, \<open>dateNow\<close> the clock when
  \<open>analyze()\<close> ends, \<open>newDate\<close> the clock a round is stamped with, \<open>sanitize\<close> is
  \<open>DOMPurify.sanitize\<close>, and \<open>parsedTextContent s\<close> is the \<open>textContent\<close> of a fresh
  \<open>div\<close> whose \<open>innerHTML\<close> was set to \<open>s\<close>.
\<close>

record host =
  startTime :: int
  dateNow :: int
  newDate :: int
  dateIso :: string
  locationHref :: string
  locationHash :: string
  documentTitle :: string
  navigatorUserAgent :: string
  documentElementCount :: nat
  sanitize :: "string \<Rightarrow> string"
  parsedTextContent :: "string \<Rightarrow> string"

text \<open>
  What can be thrown: a strategy that finds no container, any other failure inside a
  strategy, and the orchestrator's own terminal error.
\<close>

datatype error = NoContainerFound | StrategyFailed string | AllStrategiesFailed

section \<open>BaseStrategy\<close>

text \<open>The callback of the first \<open>filter\<close> in \<open>extractMessageElements\<close>.\<close>

definition hasMessageIndicators :: "domElement \<Rightarrow> bool" where
  "hasMessageIndicators d =
     (let html = toLowerCase (outerHTML d)
      in strIncludes html ''message'' \<or> strIncludes html ''bubble'' \<or> strIncludes html ''chat''
         \<or> strIncludes (toLowerCase (className d)) ''message'')"

definition messageFilter :: "element \<Rightarrow> handle \<Rightarrow> bool" where
  "messageFilter doc el =
     (let d = props (nodeAt doc el)
      in if textContent d \<noteq> [] \<and> length (trim (textContent d)) < 10 then False
         else hasMessageIndicators d)"

definition extractMessageElements :: "element \<Rightarrow> handle \<Rightarrow> handle list" where
  "extractMessageElements doc container =
     (let candidates = filter (messageFilter doc) (querySelectorAll doc container selAll)
      in map (\<lambda>index. candidates ! index)
           (filter (\<lambda>index. \<not> list_ex (\<lambda>otherIndex. otherIndex \<noteq> index \<and>
                                   contains (candidates ! otherIndex) (candidates ! index))
                                 [0..<length candidates])
                   [0..<length candidates]))"

text \<open>
  \<open>classifyMessage\<close> counts cues for each role. Two of its needles (U+7528 U+6237 and
  U+56DE U+7B54) have code units above 255; no string of the model contains them, and
  their \<open>includes\<close> is false.
\<close>

definition includesBeyondLatin1 :: "string \<Rightarrow> bool" where
  "includesBeyondLatin1 text = False"

definition countTrue :: "bool list \<Rightarrow> nat" where
  "countTrue bs = length (filter (\<lambda>b. b) bs)"

definition classifyMessage :: "element \<Rightarrow> handle \<Rightarrow> role" where
  "classifyMessage doc el =
     (let d = props (nodeAt doc el);
          html = toLowerCase (outerHTML d);
          cls = toLowerCase (className d);
          txt = toLowerCase (textContent d);
          userIndicators =
            [strIncludes cls ''user'', strIncludes cls ''human'', strIncludes cls ''question'',
             strIncludes html ''user'',
             includesBeyondLatin1 txt \<or> strIncludes txt ''question'',
             querySelectorFinds doc el (selClassContains ''user'')];
          aiIndicators =
            [strIncludes cls ''assistant'', strIncludes cls ''ai'', strIncludes cls ''bot'',
             strIncludes cls ''answer'', strIncludes html ''assistant'',
             strIncludes txt ''assistant'' \<or> includesBeyondLatin1 txt,
             querySelectorFinds doc el (selClassContains ''assistant'')];
          userScore = countTrue userIndicators;
          aiScore = countTrue aiIndicators
      in if userScore \<ge> aiScore then User else Assistant)"

section \<open>StructureStrategy\<close>

fun calculateMaxDepth :: "element \<Rightarrow> nat \<Rightarrow> nat" where
  "calculateMaxDepth (Element d cs) depth =
     (if cs = [] then depth
      else foldl (\<lambda>maxChildDepth childDepth.
                    if childDepth > maxChildDepth then childDepth else maxChildDepth)
                 depth (map (\<lambda>child. calculateMaxDepth child (depth + 1)) cs))"

definition containsCode :: "element \<Rightarrow> handle \<Rightarrow> bool" where
  "containsCode doc el =
     (let d = props (nodeAt doc el)
      in querySelectorFinds doc el (selTags [''pre'', ''code''])
         \<or> strIncludes (textContent d) ''```''
         \<or> (strIncludes (outerHTML d) ''<pre>'' \<or> strIncludes (outerHTML d) ''<code>''
            \<or> strIncludes (outerHTML d) ''```''))"

text \<open>The callback of the \<open>filter\<close> that builds \<open>candidateElements\<close>.\<close>

definition clusterFilter :: "element \<Rightarrow> handle \<Rightarrow> bool" where
  "clusterFilter doc el =
     (let node = nodeAt doc el;
          txt = trim (textContent (props node))
      in if length txt < 20 \<and> \<not> containsCode doc el then False
         else (let childCount = length (children node);
                   depth = calculateMaxDepth node 0;
                   hasComplexContent = (childCount > 0 \<or> depth > 2)
               in hasComplexContent \<and> length txt > 10))"

definition candidateElements :: "element \<Rightarrow> handle \<Rightarrow> handle list" where
  "candidateElements doc container =
     filter (clusterFilter doc) (querySelectorAll doc container selAll)"

definition calculateElementSignature :: "element \<Rightarrow> handle \<Rightarrow> string" where
  "calculateElementSignature doc el =
     (let node = nodeAt doc el;
          d = props node;
          classes = filterBoolean (splitWhiteSpace (className d));
          textLength = length (textContent d);
          features =
            [''tag:'' @ toLowerCase (tagName d)]
            @ map (\<lambda>cls. ''cls:'' @ cls) (take 3 classes)
            @ [''children:'' @ showNat (length (children node))]
            @ [if textLength < 100 then ''text:short''
               else if textLength < 500 then ''text:medium'' else ''text:long'']
            @ (if containsCode doc el then [''has:code''] else [])
            @ (if querySelectorFinds doc el (selTags [''ul'', ''ol'', ''li'']) then [''has:list''] else [])
            @ (if querySelectorFinds doc el (selTags [''img'']) then [''has:img''] else [])
      in join ''|'' features)"

definition isSimilarSignature :: "string \<Rightarrow> string \<Rightarrow> bool" where
  "isSimilarSignature sig1 sig2 =
     (let features1 = remdups (split ''|'' sig1);
          features2 = remdups (split ''|'' sig2);
          intersection = setSize (filter (\<lambda>x. x \<in> set features2) features1);
          union = setSize (features1 @ features2);
          similarity = real intersection / real union
      in similarity > 0.6)"

text \<open>
  The two \<open>while\<close> loops of \<open>findMessageClusters\<close>. The state is the cluster under
  construction and the \<open>processed\<close> set; the loop variable is the sibling, \<open>None\<close> for
  \<open>null\<close>.
\<close>

type_synonym clustering = "handle list \<times> handle set"

function walkPrev :: "element \<Rightarrow> handle list \<Rightarrow> string \<Rightarrow> handle option \<Rightarrow> clustering \<Rightarrow> clustering" where
  "walkPrev doc cands elementSignature None (cluster, processed) = (cluster, processed)"
| "walkPrev doc cands elementSignature (Some prevSibling) (cluster, processed) =
     (if prevSibling \<in> set cands \<and> prevSibling \<notin> processed
      then walkPrev doc cands elementSignature (previousElementSibling doc prevSibling)
             (if isSimilarSignature elementSignature (calculateElementSignature doc prevSibling)
              then (prevSibling # cluster, insert prevSibling processed)
              else (cluster, processed))
      else (cluster, processed))"
  by pat_completeness auto
termination
  by (relation "measure (\<lambda>(doc, cands, sig, sib, st). case sib of None \<Rightarrow> 0 | Some s \<Rightarrow> Suc (last s))")
     (auto simp: previousElementSibling_def split: if_splits)

function walkNext :: "element \<Rightarrow> handle list \<Rightarrow> string \<Rightarrow> handle option \<Rightarrow> clustering \<Rightarrow> clustering" where
  "walkNext doc cands elementSignature None (cluster, processed) = (cluster, processed)"
| "walkNext doc cands elementSignature (Some nextSibling) (cluster, processed) =
     (if nextSibling \<in> set cands \<and> nextSibling \<notin> processed
      then walkNext doc cands elementSignature (nextElementSibling doc nextSibling)
             (if isSimilarSignature elementSignature (calculateElementSignature doc nextSibling)
              then (cluster @ [nextSibling], insert nextSibling processed)
              else (cluster, processed))
      else (cluster, processed))"
  by pat_completeness auto
termination
  by (relation "measure (\<lambda>(doc, cands, sig, sib, st). case sib of None \<Rightarrow> 0
         | Some s \<Rightarrow> Suc (length (children (nodeAt doc (butlast s))) - last s))")
     (auto simp: nextElementSibling_def split: if_splits)

text \<open>The \<open>for\<close> loop over \<open>candidateElements\<close>; the state is \<open>(clusters, processed)\<close>.\<close>

fun clusterLoop :: "element \<Rightarrow> handle list \<Rightarrow> handle list \<Rightarrow> handle list list \<times> handle set
                      \<Rightarrow> handle list list \<times> handle set" where
  "clusterLoop doc cands [] (clusters, processed) = (clusters, processed)"
| "clusterLoop doc cands (el # rest) (clusters, processed) =
     (if el \<in> processed then clusterLoop doc cands rest (clusters, processed)
      else (let elementSignature = calculateElementSignature doc el;
                (cluster1, processed1) =
                   walkPrev doc cands elementSignature (previousElementSibling doc el)
                     ([el], insert el processed);
                (cluster2, processed2) =
                   walkNext doc cands elementSignature (nextElementSibling doc el)
                     (cluster1, processed1)
            in clusterLoop doc cands rest
                 (if length cluster2 \<ge> 2 then clusters @ [cluster2] else clusters, processed2)))"

text \<open>\<open>clusters.sort((a, b) => b.length - a.length)\<close>: larger first, stable.\<close>

definition findMessageClusters :: "element \<Rightarrow> handle \<Rightarrow> handle list list" where
  "findMessageClusters doc container =
     (let cands = candidateElements doc container;
          (clusters, processed) = clusterLoop doc cands cands ([], {})
      in sort_key (\<lambda>cluster. - int (length cluster)) clusters)"

text \<open>
  The matches of \<open>/<h([1-6])/g\<close> (their digit) and of \<open>/```(\w+)/g\<close> (their word) in a
  markup string, from left to right.
\<close>

fun headingMatches :: "string \<Rightarrow> nat list" where
  "headingMatches (a # b # c # rest) =
     (if a = CHR ''<'' \<and> b = CHR ''h'' \<and> c \<in> set ''123456''
      then (of_char c - 48) # headingMatches rest
      else headingMatches (b # c # rest))"
| "headingMatches rest = []"

definition isWordChar :: "char \<Rightarrow> bool" where
  "isWordChar c =
     (let n = (of_char c :: nat)
      in (48 \<le> n \<and> n \<le> 57) \<or> (65 \<le> n \<and> n \<le> 90) \<or> n = 95 \<or> (97 \<le> n \<and> n \<le> 122))"

function codeMatches :: "string \<Rightarrow> string list" where
  "codeMatches [] = []"
| "codeMatches (c # cs) =
     (if prefix ''```'' (c # cs) \<and> takeWhile isWordChar (drop 2 cs) \<noteq> []
      then takeWhile isWordChar (drop 2 cs) # codeMatches (dropWhile isWordChar (drop 2 cs))
      else codeMatches cs)"
  by pat_completeness auto
termination
proof (relation "measure length")
  show "wf (measure length)" by simp
next
  fix c :: char and cs :: string
  have "length (dropWhile isWordChar (drop 2 cs)) \<le> length (drop 2 cs)"
    by (rule length_dropWhile_le)
  then show "(dropWhile isWordChar (drop 2 cs), c # cs) \<in> measure length" by simp
next
  fix c :: char and cs :: string
  show "(cs, c # cs) \<in> measure length" by simp
qed

definition extractText :: "element \<Rightarrow> handle \<Rightarrow> string" where
  "extractText doc el = trim (textContent (props (nodeAt doc el)))"

definition analyzeFormat :: "element \<Rightarrow> handle \<Rightarrow> formatAnalysis" where
  "analyzeFormat doc el =
     (let html = outerHTML (props (nodeAt doc el))
      in \<lparr> hasCodeBlocks = containsCode doc el,
           codeLanguages = foldl pushNew [] (codeMatches html),
           hasHeadings = (headingMatches html \<noteq> []),
           headingLevels = foldl pushNew [] (headingMatches html),
           hasLists = querySelectorFinds doc el (selTags [''ul'', ''ol'', ''li'']),
           hasTables = querySelectorFinds doc el (selTags [''table'']) \<rparr>)"

definition pathPart :: "domElement \<Rightarrow> string" where
  "pathPart d =
     toLowerCase (tagName d)
     @ (if elementId d \<noteq> [] then ''#'' @ elementId d else [])
     @ (if className d \<noteq> [] then ''.'' @ join ''.'' (split '' '' (className d)) else [])"

text \<open>\<open>for (let i = 0; i < 5 && current; i++)\<close>: the first argument counts the rounds left.\<close>

fun getElementPathLoop :: "nat \<Rightarrow> element \<Rightarrow> handle option \<Rightarrow> string list \<Rightarrow> string list" where
  "getElementPathLoop 0 doc current path = path"
| "getElementPathLoop (Suc n) doc None path = path"
| "getElementPathLoop (Suc n) doc (Some current) path =
     getElementPathLoop n doc (parentElement doc current)
       (pathPart (props (nodeAt doc current)) # path)"

definition getElementPath :: "element \<Rightarrow> handle \<Rightarrow> string" where
  "getElementPath doc el = join '' > '' (getElementPathLoop 5 doc (Some el) [])"

definition calculatePathSimilarity :: "string \<Rightarrow> string \<Rightarrow> real" where
  "calculatePathSimilarity path1 path2 =
     (let parts1 = split '' > '' path1;
          parts2 = split '' > '' path2;
          matches = length (filter (\<lambda>(part1, part2). part1 = part2) (zip parts1 parts2))
      in real matches / real (max (length parts1) (length parts2)))"

definition styleProperties :: "string list" where
  "styleProperties =
     [''display'', ''position'', ''float'', ''clear'',
      ''width'', ''height'', ''margin'', ''padding'',
      ''border'', ''background'', ''color'', ''font'',
      ''textAlign'', ''lineHeight'']"

definition calculateStyleSimilarity :: "element \<Rightarrow> handle \<Rightarrow> handle \<Rightarrow> real" where
  "calculateStyleSimilarity doc element1 element2 =
     (let style1 = computedStyle (props (nodeAt doc element1));
          style2 = computedStyle (props (nodeAt doc element2));
          matches = length (filter (\<lambda>prop. style1 prop = style2 prop) styleProperties)
      in real matches / real (length styleProperties))"

definition calculateStructureConfidence :: "element \<Rightarrow> handle \<Rightarrow> handle \<Rightarrow> real" where
  "calculateStructureConfidence doc userElement assistantElement =
     (let confidence0 = 0.6;
          pathSimilarity = calculatePathSimilarity (getElementPath doc userElement)
                                                   (getElementPath doc assistantElement);
          confidence1 = confidence0 + pathSimilarity * 0.2;
          userBottom = rectBottom (props (nodeAt doc userElement));
          assistantTop = rectTop (props (nodeAt doc assistantElement));
          confidence2 = (if assistantTop > userBottom \<and> assistantTop - userBottom < 500
                         then confidence1 + 0.15 else confidence1);
          styleSimilarity = calculateStyleSimilarity doc userElement assistantElement;
          confidence3 = confidence2 + styleSimilarity * 0.15
      in min confidence3 0.95)"

definition createConversationRound :: "host \<Rightarrow> element \<Rightarrow> int \<Rightarrow> handle \<Rightarrow> handle \<Rightarrow> ConversationRound" where
  "createConversationRound h doc index userElement assistantElement =
     (let now = newDate h;
          u = props (nodeAt doc userElement);
          a = props (nodeAt doc assistantElement)
      in \<lparr> r_index = index,
           r_timestamp = now,
           user = \<lparr> m_index = index, m_timestamp = now, m_role = User,
                     m_html = sanitize h (outerHTML u),
                     m_text = extractText doc userElement,
                     m_elementInfo = \<lparr> info_tagName = tagName u, info_className = className u \<rparr> \<rparr>,
           assistant = \<lparr> m_index = index, m_timestamp = now, m_role = Assistant,
                          m_html = sanitize h (outerHTML a),
                          m_text = extractText doc assistantElement,
                          m_elementInfo = \<lparr> info_tagName = tagName a, info_className = className a \<rparr>,
                          m_formatAnalysis = analyzeFormat doc assistantElement \<rparr>,
           r_metadata = \<lparr> extractionConfidence =
                             calculateStructureConfidence doc userElement assistantElement,
                           elementCount = 2 \<rparr> \<rparr>)"

text \<open>
  \<open>createExtractedConversation\<close> is the same method in both strategy classes, but for
  \<open>strategyUsed\<close>: the structure strategy stores a fixed name, the probe strategy the
  name it is called with. \<open>meanConfidence\<close> is the value both store as
  \<open>metadata.confidenceScore\<close>.
\<close>

definition meanConfidence :: "ConversationRound list \<Rightarrow> real" where
  "meanConfidence rounds =
     (if length rounds > 0
      then foldl (\<lambda>sum round. sum + extractionConfidence (r_metadata round)) 0 rounds
           / real (length rounds)
      else 0)"

definition createExtractedConversation :: "host \<Rightarrow> ConversationRound list \<Rightarrow> string \<Rightarrow> ExtractedConversation" where
  "createExtractedConversation h rounds strategy =
     \<lparr> version = ''1.0'',
       metadata = \<lparr> sourceUrl = locationHref h,
                    extractedAt = dateIso h,
                    extractorVersion = ''1.0.0'',
                    strategyUsed = strategy,
                    confidenceScore = meanConfidence rounds,
                    pageInfo = \<lparr> title = documentTitle h,
                                  urlHash = locationHash h,
                                  userAgent = navigatorUserAgent h \<rparr> \<rparr>,
       conversation = rounds,
       extractionStats = \<lparr> totalRounds = length rounds,
                           successRate = (if length rounds > 0 then 100 else 0),
                           processingTimeMs = 0,
                           domElementsAnalyzed = documentElementCount h \<rparr> \<rparr>"

text \<open>
  The scan of \<open>processMessageCluster\<close> for the first user element and the first
  assistant element; it breaks as soon as both are there.
\<close>

fun clusterScan :: "('e \<Rightarrow> role) \<Rightarrow> 'e list \<Rightarrow> 'e option \<times> 'e option \<Rightarrow> 'e option \<times> 'e option" where
  "clusterScan classify [] (userElement, assistantElement) = (userElement, assistantElement)"
| "clusterScan classify (el # rest) (userElement, assistantElement) =
     (let found = (if classify el = User \<and> userElement = None then (Some el, assistantElement)
                   else if classify el = Assistant \<and> assistantElement = None
                        then (userElement, Some el)
                        else (userElement, assistantElement))
      in if fst found \<noteq> None \<and> snd found \<noteq> None then found
         else clusterScan classify rest found)"

definition processMessageCluster :: "host \<Rightarrow> element \<Rightarrow> handle list \<Rightarrow> ConversationRound option" where
  "processMessageCluster h doc cluster =
     (if length cluster < 2 then None
      else (case clusterScan (classifyMessage doc) cluster (None, None) of
              (Some userElement, Some assistantElement) \<Rightarrow>
                 Some (createConversationRound h doc
                         (indexOf cluster userElement + indexOf cluster assistantElement)
                         userElement assistantElement)
            | _ \<Rightarrow> None))"

text \<open>
  The \<open>for\<close> loop of \<open>fallbackToSequentialPairing\<close> at position \<open>i\<close>, with the elements
  from \<open>i\<close> on still to visit. The loop uses the role of \<open>classifyMessage\<close> and the round
  of \<open>createConversationRound\<close>; both are arguments here, so that the loop can also be
  run with a constructor that keeps the two paired elements.
\<close>

fun sequentialPairingLoop ::
  "('e \<Rightarrow> role) \<Rightarrow> (int \<Rightarrow> 'e \<Rightarrow> 'e \<Rightarrow> 'r) \<Rightarrow> 'e list \<Rightarrow> nat \<Rightarrow> 'e list \<Rightarrow> 'e option \<Rightarrow> 'r list \<Rightarrow> 'r list" where
  "sequentialPairingLoop classify mk elements i [] userElement rounds = rounds"
| "sequentialPairingLoop classify mk elements i (el # rest) userElement rounds =
     (if classify el = User
      then sequentialPairingLoop classify mk elements (Suc i) rest (Some el) rounds
      else (case userElement of
              None \<Rightarrow> sequentialPairingLoop classify mk elements (Suc i) rest None rounds
            | Some remembered \<Rightarrow>
                (let userIndex = indexOf elements remembered
                 in if int i - userIndex \<le> 3
                    then sequentialPairingLoop classify mk elements (Suc i) rest None
                           (rounds @ [mk (int (length rounds) + 1) remembered el])
                    else sequentialPairingLoop classify mk elements (Suc i) rest
                           (Some remembered) rounds)))"

definition fallbackToSequentialPairing :: "host \<Rightarrow> element \<Rightarrow> handle \<Rightarrow> ConversationRound list" where
  "fallbackToSequentialPairing h doc container =
     (let elements = extractMessageElements doc container
      in sequentialPairingLoop (classifyMessage doc) (createConversationRound h doc)
           elements 0 elements None [])"

definition extractUsingStructureAnalysis :: "host \<Rightarrow> element \<Rightarrow> handle \<Rightarrow> ConversationRound list" where
  "extractUsingStructureAnalysis h doc container =
     (let messageClusters = findMessageClusters doc container;
          rounds = List.map_filter (processMessageCluster h doc) messageClusters
      in if length rounds = 0 then fallbackToSequentialPairing h doc container else rounds)"

text \<open>
  \<open>execute()\<close>. The container is what \<open>findConversationContainer()\<close> returned, \<open>None\<close>
  for \<open>null\<close>.
\<close>

definition structureExecute :: "host \<Rightarrow> element \<Rightarrow> handle option \<Rightarrow> error + ExtractedConversation" where
  "structureExecute h doc found =
     (case found of
        None \<Rightarrow> Inl NoContainerFound
      | Some container \<Rightarrow>
          Inr (createExtractedConversation h (extractUsingStructureAnalysis h doc container)
                 ''structure-analysis''))"

section \<open>ReactStrategy\<close>

text \<open>
  A fiber's \<open>type\<close> is absent, a host tag, or a component with its \<open>displayName\<close> and
  \<open>name\<close> (empty when it has none). Its props are the own keys in order, each with a
  string or some other value.
\<close>

datatype componentType = NoType | HostType string | ComponentType string string

datatype propValue = StringValue string | OtherValue

type_synonym fiberProps = "(string \<times> propValue) list"

definition isMessageComponent :: "componentType \<Rightarrow> fiberProps \<Rightarrow> bool" where
  "isMessageComponent type fprops =
     (if type = NoType \<or> type = HostType [] then False
      else (let typeName = (case type of
                              HostType tag \<Rightarrow> tag
                            | ComponentType displayName name \<Rightarrow>
                                (if displayName \<noteq> [] then displayName else name)
                            | NoType \<Rightarrow> []);
                propKeys = map fst fprops;
                indicators =
                  [strIncludes (toLowerCase typeName) ''message'',
                   strIncludes (toLowerCase typeName) ''chat'',
                   strIncludes (toLowerCase typeName) ''bubble'',
                   list_ex (\<lambda>key. strIncludes (toLowerCase key) ''message'') propKeys,
                   list_ex (\<lambda>key. strIncludes (toLowerCase key) ''role'') propKeys,
                   map_of fprops ''role'' = Some (StringValue ''user'')
                     \<or> map_of fprops ''role'' = Some (StringValue ''assistant'')]
            in list_ex (\<lambda>b. b) indicators))"

text \<open>A record of the probe: the role it resolved and the content it read.\<close>

record probeMessage =
  pm_role :: role
  pm_content :: string

definition reactExtractText :: "host \<Rightarrow> string \<Rightarrow> string" where
  "reactExtractText h html = trim (parsedTextContent h html)"

definition reactAnalyzeFormat :: "string \<Rightarrow> formatAnalysis" where
  "reactAnalyzeFormat html =
     \<lparr> hasCodeBlocks = (strIncludes html ''<pre>'' \<or> strIncludes html ''<code>''
                          \<or> strIncludes html ''```''),
       codeLanguages = foldl pushNew [] (codeMatches html),
       hasHeadings = (headingMatches html \<noteq> []),
       headingLevels = foldl pushNew [] (headingMatches html),
       hasLists = (strIncludes html ''<ul>'' \<or> strIncludes html ''<ol>''
                     \<or> strIncludes html ''<li>''),
       hasTables = strIncludes html ''<table>'' \<rparr>"

definition findCommonWords :: "string \<Rightarrow> string \<Rightarrow> string list" where
  "findCommonWords str1 str2 =
     (let words1 = filterBoolean (splitNonAlpha (toLowerCase str1));
          words2 = filterBoolean (splitNonAlpha (toLowerCase str2))
      in filter (\<lambda>word. word \<in> set words2) words1)"

definition calculateConfidence :: "element \<Rightarrow> handle \<Rightarrow> handle \<Rightarrow> real" where
  "calculateConfidence doc userElement assistantElement =
     (let confidence0 = 0.7;
          userBottom = rectBottom (props (nodeAt doc userElement));
          assistantTop = rectTop (props (nodeAt doc assistantElement));
          confidence1 = (if assistantTop > userBottom then confidence0 + 0.2 else confidence0);
          userClasses = className (props (nodeAt doc userElement));
          assistantClasses = className (props (nodeAt doc assistantElement));
          confidence2 = (if userClasses \<noteq> [] \<and> assistantClasses \<noteq> []
                            \<and> length (findCommonWords userClasses assistantClasses) > 0
                         then confidence1 + 0.1 else confidence1)
      in min confidence2 0.95)"

definition reactCreateConversationRound :: "host \<Rightarrow> int \<Rightarrow> probeMessage \<Rightarrow> probeMessage \<Rightarrow> ConversationRound" where
  "reactCreateConversationRound h index userMessage assistantMessage =
     (let now = newDate h
      in \<lparr> r_index = index,
           r_timestamp = now,
           user = \<lparr> m_index = index, m_timestamp = now, m_role = User,
                     m_html = sanitize h (pm_content userMessage),
                     m_text = reactExtractText h (pm_content userMessage),
                     m_elementInfo = \<lparr> info_tagName = ''div'',
                                       info_className = ''react-user-message'' \<rparr> \<rparr>,
           assistant = \<lparr> m_index = index, m_timestamp = now, m_role = Assistant,
                          m_html = sanitize h (pm_content assistantMessage),
                          m_text = reactExtractText h (pm_content assistantMessage),
                          m_elementInfo = \<lparr> info_tagName = ''div'',
                                            info_className = ''react-assistant-message'' \<rparr>,
                          m_formatAnalysis = reactAnalyzeFormat (pm_content assistantMessage) \<rparr>,
           r_metadata = \<lparr> extractionConfidence = 0.9, elementCount = 2 \<rparr> \<rparr>)"

definition createConversationRoundFromElements :: "host \<Rightarrow> element \<Rightarrow> int \<Rightarrow> handle \<Rightarrow> handle \<Rightarrow> ConversationRound" where
  "createConversationRoundFromElements h doc index userElement assistantElement =
     (let now = newDate h;
          u = props (nodeAt doc userElement);
          a = props (nodeAt doc assistantElement)
      in \<lparr> r_index = index,
           r_timestamp = now,
           user = \<lparr> m_index = index, m_timestamp = now, m_role = User,
                     m_html = sanitize h (outerHTML u),
                     m_text = reactExtractText h (textContent u),
                     m_elementInfo = \<lparr> info_tagName = tagName u, info_className = className u \<rparr> \<rparr>,
           assistant = \<lparr> m_index = index, m_timestamp = now, m_role = Assistant,
                          m_html = sanitize h (outerHTML a),
                          m_text = reactExtractText h (textContent a),
                          m_elementInfo = \<lparr> info_tagName = tagName a, info_className = className a \<rparr>,
                          m_formatAnalysis = reactAnalyzeFormat (outerHTML a) \<rparr>,
           r_metadata = \<lparr> extractionConfidence =
                             calculateConfidence doc userElement assistantElement,
                           elementCount = 2 \<rparr> \<rparr>)"

text \<open>
  The \<open>forEach\<close> of \<open>extractFromReactData\<close> and of \<open>extractFromDOM\<close>: remember the latest
  user, pair it with the next assistant.
\<close>

fun alternationLoop ::
  "('e \<Rightarrow> role) \<Rightarrow> (int \<Rightarrow> 'e \<Rightarrow> 'e \<Rightarrow> 'r) \<Rightarrow> 'e list \<Rightarrow> 'e option \<Rightarrow> 'r list \<Rightarrow> 'r list" where
  "alternationLoop classify mk [] userMessage rounds = rounds"
| "alternationLoop classify mk (el # rest) userMessage rounds =
     (if classify el = User
      then alternationLoop classify mk rest (Some el) rounds
      else (case userMessage of
              None \<Rightarrow> alternationLoop classify mk rest None rounds
            | Some remembered \<Rightarrow>
                alternationLoop classify mk rest None
                  (rounds @ [mk (int (length rounds) + 1) remembered el])))"

definition extractFromReactData :: "host \<Rightarrow> probeMessage list \<Rightarrow> ExtractedConversation" where
  "extractFromReactData h messages =
     createExtractedConversation h
       (alternationLoop pm_role (reactCreateConversationRound h) messages None [])
       ''react-strategy''"

definition extractFromDOM :: "host \<Rightarrow> element \<Rightarrow> handle \<Rightarrow> ExtractedConversation" where
  "extractFromDOM h doc container =
     createExtractedConversation h
       (alternationLoop (classifyMessage doc) (createConversationRoundFromElements h doc)
          (extractMessageElements doc container) None [])
       ''dom-fallback''"

text \<open>
  \<open>execute()\<close>. \<open>reactData\<close> is what \<open>tryGetReactData\<close> returned: the records read from the
  retained component tree, or \<open>None\<close> for \<open>null\<close>.
\<close>

definition reactExecute ::
  "host \<Rightarrow> element \<Rightarrow> handle option \<Rightarrow> probeMessage list option \<Rightarrow> error + ExtractedConversation" where
  "reactExecute h doc found reactData =
     (case found of
        None \<Rightarrow> Inl NoContainerFound
      | Some container \<Rightarrow>
          (case reactData of
             Some messages \<Rightarrow> Inr (extractFromReactData h messages)
           | None \<Rightarrow> Inr (extractFromDOM h doc container)))"

section \<open>The orchestrator (DOMIntelligentAnalyzer)\<close>

definition evaluateExtraction :: "ExtractedConversation \<Rightarrow> jsnum" where
  "evaluateExtraction result =
     (let rounds = conversation result;
          score0 = Num 0;
          score1 = (if length rounds > 0
                    then js_add score0 (Num (min (real (length rounds) * 10) 30))
                    else score0);
          avgConfidence =
            js_div (Num (foldl (\<lambda>sum round. sum + extractionConfidence (r_metadata round)) 0 rounds))
                   (Num (real (length rounds)));
          score2 = js_add score1 (js_mul avgConfidence (Num 40));
          codeBlocks = list_ex (\<lambda>round. hasCodeBlocks (m_formatAnalysis (assistant round))) rounds;
          headings = list_ex (\<lambda>round. hasHeadings (m_formatAnalysis (assistant round))) rounds;
          score3 = (if codeBlocks then js_add score2 (Num 15) else score2);
          score4 = (if headings then js_add score3 (Num 15) else score3)
      in score4)"

definition validateAndEnhance :: "host \<Rightarrow> ExtractedConversation \<Rightarrow> ExtractedConversation" where
  "validateAndEnhance h result =
     (let kept = filter (\<lambda>round. length (trim (m_text (user round))) > 0 \<and>
                                  length (trim (m_text (assistant round))) > 0)
                        (conversation result);
          stats = (extractionStats result)
                    \<lparr> totalRounds := length kept,
                      successRate := (if length kept > 0 then 100 else 0),
                      domElementsAnalyzed := documentElementCount h \<rparr>;
          meta = (metadata result)
                    \<lparr> extractedAt := dateIso h,
                      sourceUrl := locationHref h,
                      pageInfo := \<lparr> title = documentTitle h,
                                    urlHash = locationHash h,
                                    userAgent = navigatorUserAgent h \<rparr> \<rparr>
      in result \<lparr> conversation := kept, extractionStats := stats, metadata := meta \<rparr>)"

text \<open>
  The strategies run one after the other on a document nobody changes, so the loop of
  \<open>analyze()\<close> sees a list of outcomes: what each \<open>execute()\<close> returned, or that it
  threw. The loop state is \<open>(bestResult, bestScore)\<close>.
\<close>

type_synonym outcome = "error + ExtractedConversation"

type_synonym best = "ExtractedConversation option \<times> jsnum"

fun tryStrategy :: "best \<Rightarrow> outcome \<Rightarrow> best" where
  "tryStrategy (bestResult, bestScore) (Inl thrown) = (bestResult, bestScore)"
| "tryStrategy (bestResult, bestScore) (Inr result) =
     (let score = evaluateExtraction result
      in if js_gt score bestScore then (Some result, score) else (bestResult, bestScore))"

fun strategyLoop :: "best \<Rightarrow> outcome list \<Rightarrow> best" where
  "strategyLoop b [] = b"
| "strategyLoop b (out # outs) = strategyLoop (tryStrategy b out) outs"

definition analyze :: "host \<Rightarrow> outcome list \<Rightarrow> error + ExtractedConversation" where
  "analyze h outs =
     (case fst (strategyLoop (None, Num 0) outs) of
        None \<Rightarrow> Inl AllStrategiesFailed
      | Some bestResult \<Rightarrow>
          (let validated = validateAndEnhance h bestResult;
               processingTime = dateNow h - startTime h
           in Inr (validated \<lparr> extractionStats :=
                     (extractionStats validated) \<lparr> processingTimeMs := processingTime \<rparr> \<rparr>)))"

text \<open>
  \<open>analyze()\<close> on a page: the three registered strategies in order. The source of
  \<open>VisualStrategy\<close> is not part of the repository snapshot; what its \<open>execute()\<close> does
  is the argument \<open>visual\<close>.
\<close>

definition analyzePage ::
  "host \<Rightarrow> element \<Rightarrow> handle option \<Rightarrow> probeMessage list option \<Rightarrow> outcome
     \<Rightarrow> error + ExtractedConversation" where
  "analyzePage h doc found reactData visual =
     analyze h [reactExecute h doc found reactData, structureExecute h doc found, visual]"

section \<open>Notions used to state the properties\<close>

text \<open>A strategy's outcome moves the running best: it returned, and scored above it.\<close>

definition improves :: "best \<Rightarrow> outcome \<Rightarrow> bool" where
  "improves b out = (case out of Inl thrown \<Rightarrow> False
                    | Inr result \<Rightarrow> js_gt (evaluateExtraction result) (snd b))"

text \<open>What \<open>analyze()\<close> does with the winner after the loop.\<close>

definition finish :: "host \<Rightarrow> ExtractedConversation \<Rightarrow> ExtractedConversation" where
  "finish h winner =
     (let validated = validateAndEnhance h winner
      in validated \<lparr> extractionStats :=
           (extractionStats validated) \<lparr> processingTimeMs := dateNow h - startTime h \<rparr> \<rparr>)"

text \<open>The invariant of the strategy loop over the outcomes seen so far.\<close>

definition bestOf :: "outcome list \<Rightarrow> best \<Rightarrow> bool" where
  "bestOf seen b =
     (case fst b of
        None \<Rightarrow> snd b = Num 0
                 \<and> (\<forall>r. Inr r \<in> set seen \<longrightarrow> \<not> js_gt (evaluateExtraction r) (Num 0))
      | Some w \<Rightarrow> snd b = evaluateExtraction w \<and> Inr w \<in> set seen
                 \<and> js_gt (evaluateExtraction w) (Num 0) \<and> conversation w \<noteq> []
                 \<and> (\<forall>r. Inr r \<in> set seen \<longrightarrow>
                        \<not> js_gt (evaluateExtraction r) (evaluateExtraction w)))"

text \<open>A pairing loop run with this constructor returns the elements it paired.\<close>

definition keepPair :: "int \<Rightarrow> 'e \<Rightarrow> 'e \<Rightarrow> int \<times> 'e \<times> 'e" where
  "keepPair n u a = (n, u, a)"

definition pairedWithinGap :: "('e \<Rightarrow> role) \<Rightarrow> 'e list \<Rightarrow> int \<times> 'e \<times> 'e \<Rightarrow> bool" where
  "pairedWithinGap classify elements pr =
     (case pr of (n, u, a) \<Rightarrow>
        u \<in> set elements \<and> a \<in> set elements \<and> classify u = User \<and> classify a = Assistant
        \<and> indexOf elements u < indexOf elements a
        \<and> indexOf elements a \<le> indexOf elements u + 3)"

text \<open>The test of the \<open>filter\<close> in \<open>validateAndEnhance\<close>.\<close>

definition keptByValidation :: "ConversationRound \<Rightarrow> bool" where
  "keptByValidation r =
     (length (trim (m_text (user r))) > 0 \<and> length (trim (m_text (assistant r))) > 0)"

text \<open>The qualification of the probe as the specification words it.\<close>

definition specIsMessageComponent :: "componentType \<Rightarrow> fiberProps \<Rightarrow> bool" where
  "specIsMessageComponent type fprops =
     (let typeName = (case type of
                        HostType tag \<Rightarrow> tag
                      | ComponentType displayName name \<Rightarrow>
                          (if displayName \<noteq> [] then displayName else name)
                      | NoType \<Rightarrow> []);
          keywords = [''message'', ''chat'', ''bubble'']
      in list_ex (\<lambda>kw. strIncludes (toLowerCase typeName) kw
                        \<or> list_ex (\<lambda>key. strIncludes (toLowerCase key) kw) (map fst fprops))
                 keywords
         \<or> map_of fprops ''role'' = Some (StringValue ''user'')
         \<or> map_of fprops ''role'' = Some (StringValue ''assistant''))"

text \<open>
  The siblings a walk can reach from an element, nearest first; the test that lets a
  walk go on (a candidate not yet processed); and the test that puts a sibling into
  the cluster.
\<close>

definition siblingsAfter :: "element \<Rightarrow> handle \<Rightarrow> handle list" where
  "siblingsAfter doc el =
     (if el = [] then []
      else map (\<lambda>j. butlast el @ [j])
             [Suc (last el)..<length (children (nodeAt doc (butlast el)))])"

definition siblingsBefore :: "element \<Rightarrow> handle \<Rightarrow> handle list" where
  "siblingsBefore doc el =
     (if el = [] then [] else map (\<lambda>j. butlast el @ [j]) (rev [0..<last el]))"

definition walkable :: "handle list \<Rightarrow> handle set \<Rightarrow> handle \<Rightarrow> bool" where
  "walkable cands processed s = (s \<in> set cands \<and> s \<notin> processed)"

definition similarTo :: "element \<Rightarrow> string \<Rightarrow> handle \<Rightarrow> bool" where
  "similarTo doc elementSignature s =
     isSimilarSignature elementSignature (calculateElementSignature doc s)"

section \<open>Example pages\<close>

definition exampleHost :: host where
  "exampleHost =
     \<lparr> startTime = 1000, dateNow = 1250, newDate = 1100,
       dateIso = ''2024-05-01T10:00:00.000Z'',
       locationHref = ''https://chat.example/c/1'', locationHash = [],
       documentTitle = ''Chat'', navigatorUserAgent = ''Mozilla/5.0'',
       documentElementCount = 3,
       sanitize = (\<lambda>html. html), parsedTextContent = (\<lambda>html. html) \<rparr>"

definition plainElement :: "string \<Rightarrow> string \<Rightarrow> string \<Rightarrow> string \<Rightarrow> element list \<Rightarrow> element" where
  "plainElement tag cls txt html kids =
     Element \<lparr> tagName = tag, elementId = [], className = cls, textContent = txt,
               outerHTML = html, rectTop = 0, rectBottom = 0,
               computedStyle = (\<lambda>prop. []) \<rparr> kids"

text \<open>A chat container with an empty bubble and a bubble with text.\<close>

definition pageEmptyBubble :: element where
  \<open>pageEmptyBubble =
     plainElement ''DIV'' ''chat'' ''Hello, how are you today?''
       ''<div class="chat"><div class="message"></div><div class="message">Hello, how are you today?</div></div>''
       [plainElement ''DIV'' ''message'' [] ''<div class="message"></div>'' [],
        plainElement ''DIV'' ''message'' ''Hello, how are you today?''
          ''<div class="message">Hello, how are you today?</div>'' []]\<close>

text \<open>What the probe reads from a tree with a question and its answer.\<close>

definition probedPair :: "probeMessage list" where
  "probedPair = [\<lparr> pm_role = User, pm_content = ''What is 2+2?'' \<rparr>,
                 \<lparr> pm_role = Assistant, pm_content = ''4'' \<rparr>]"

text \<open>What a strategy returns when it paired nothing.\<close>

definition emptyResult :: ExtractedConversation where
  "emptyResult = createExtractedConversation exampleHost [] ''structure-analysis''"

text \<open>What the probe reads when the component of the question has no content.\<close>

definition probedEmptyQuestion :: "probeMessage list" where
  "probedEmptyQuestion = [\<lparr> pm_role = User, pm_content = [] \<rparr>,
                 \<lparr> pm_role = Assistant, pm_content = ''Hello, how are you today?'' \<rparr>]"

text \<open>
  A container without any of the words message, bubble, chat, whose two turns are
  nested blocks.
\<close>

definition pagePlain :: element where
  \<open>pagePlain =
     plainElement ''MAIN'' [] ''What is the answer to everything?The answer to everything is 42.''
       ''<main><div class="user q"><div class="body"><p>What is the answer to everything?</p></div></div><div class="assistant a"><div class="body"><p>The answer to everything is 42.</p></div></div></main>''
       [plainElement ''DIV'' ''user q'' ''What is the answer to everything?''
          ''<div class="user q"><div class="body"><p>What is the answer to everything?</p></div></div>''
          [plainElement ''DIV'' ''body'' ''What is the answer to everything?''
             ''<div class="body"><p>What is the answer to everything?</p></div>''
             [plainElement ''P'' [] ''What is the answer to everything?''
                ''<p>What is the answer to everything?</p>'' []]],
        plainElement ''DIV'' ''assistant a'' ''The answer to everything is 42.''
          ''<div class="assistant a"><div class="body"><p>The answer to everything is 42.</p></div></div>''
          [plainElement ''DIV'' ''body'' ''The answer to everything is 42.''
             ''<div class="body"><p>The answer to everything is 42.</p></div>''
             [plainElement ''P'' [] ''The answer to everything is 42.''
                ''<p>The answer to everything is 42.</p>'' []]]]\<close>

text \<open>Three sibling candidates; the middle one is a list of another shape.\<close>

definition pageThree :: element where
  \<open>pageThree =
     plainElement ''DIV'' ''thread''
       ''What is the sum of two and two?first suggestion, second suggestionThe sum of two and two is four.''
       ''<div class="thread"><div class="msg"><p>What is the sum of two and two?</p></div><ul class="a b c"><li>first suggestion, </li><li>second suggestion</li></ul><div class="msg"><p>The sum of two and two is four.</p></div></div>''
       [plainElement ''DIV'' ''msg'' ''What is the sum of two and two?''
          ''<div class="msg"><p>What is the sum of two and two?</p></div>''
          [plainElement ''P'' [] ''What is the sum of two and two?''
             ''<p>What is the sum of two and two?</p>'' []],
        plainElement ''UL'' ''a b c'' ''first suggestion, second suggestion''
          ''<ul class="a b c"><li>first suggestion, </li><li>second suggestion</li></ul>''
          [plainElement ''LI'' [] ''first suggestion, '' ''<li>first suggestion, </li>'' [],
           plainElement ''LI'' [] ''second suggestion'' ''<li>second suggestion</li>'' []],
        plainElement ''DIV'' ''msg'' ''The sum of two and two is four.''
          ''<div class="msg"><p>The sum of two and two is four.</p></div>''
          [plainElement ''P'' [] ''The sum of two and two is four.''
             ''<p>The sum of two and two is four.</p>'' []]]\<close>

text \<open>A question and its answer, marked by their classes.\<close>

definition pageQuestionAnswer :: element where
  \<open>pageQuestionAnswer =
     plainElement ''DIV'' ''chat'' ''What is two plus two?It is four, as always.''
       ''<div class="chat"><div class="message user">What is two plus two?</div><div class="message assistant">It is four, as always.</div></div>''
       [plainElement ''DIV'' ''message user'' ''What is two plus two?''
          ''<div class="message user">What is two plus two?</div>'' [],
        plainElement ''DIV'' ''message assistant'' ''It is four, as always.''
          ''<div class="message assistant">It is four, as always.</div>'' []]\<close>

section \<open>The tree and the pairing loops: properties\<close>

lemma descendants_distinct:
  "distinct (descendants e) \<and> [] \<notin> set (descendants e)"
  and "distinct (descendantsFrom i cs) \<and> (\<forall>p \<in> set (descendantsFrom i cs). p \<noteq> [] \<and> hd p \<ge> i)"
proof (induction e and i cs rule: descendants_descendantsFrom.induct)
  case (1 d cs)
  then show ?case by auto
next
  case (2 i)
  then show ?case by simp
next
  case (3 i c cs)
  have inj: "inj_on ((#) i) (set (descendants c))" by (simp add: inj_on_def)
  from 3 show ?case
    by (fastforce simp: distinct_map inj)
qed

lemma querySelectorAll_distinct: "distinct (querySelectorAll doc el sel)"
  by (simp add: querySelectorAll_def distinct_map descendants_distinct inj_on_def)

lemma nth_filter_upt_distinct:
  "distinct xs \<Longrightarrow> distinct (map (\<lambda>i. xs ! i) (filter P [0..<length xs]))"
  by (auto simp: distinct_map inj_on_def nth_eq_iff_index_eq)

lemma extractMessageElements_distinct: "distinct (extractMessageElements doc container)"
  unfolding extractMessageElements_def Let_def
  by (rule nth_filter_upt_distinct) (simp add: querySelectorAll_distinct)

lemma indexOf_nonneg_iff: "0 \<le> indexOf xs x \<longleftrightarrow> x \<in> set xs"
  by (induction xs) (auto simp: Let_def)

lemma indexOf_nth: "distinct xs \<Longrightarrow> i < length xs \<Longrightarrow> indexOf xs (xs ! i) = int i"
proof (induction xs arbitrary: i)
  case Nil
  then show ?case by simp
next
  case (Cons y ys)
  show ?case
  proof (cases i)
    case 0
    then show ?thesis by simp
  next
    case (Suc j)
    with Cons.prems have j: "j < length ys" and ne: "ys ! j \<noteq> y" and d: "distinct ys"
      by auto
    from Cons.IH [OF d j] Suc ne show ?thesis by (auto simp: Let_def)
  qed
qed

lemma role_not_User: "r \<noteq> User \<longleftrightarrow> r = Assistant"
  by (cases r) auto

lemma sequentialPairingLoop_gap:
  assumes "distinct elements"
  shows "rest = drop i elements \<Longrightarrow>
         (\<forall>u. remembered = Some u \<longrightarrow> 0 < i \<and> u = elements ! (i - 1) \<and> classify u = User) \<Longrightarrow>
         (\<forall>pr \<in> set rounds. pairedWithinGap classify elements pr) \<Longrightarrow>
         \<forall>pr \<in> set (sequentialPairingLoop classify keepPair elements i rest remembered rounds).
            pairedWithinGap classify elements pr"
proof (induction rest arbitrary: i remembered rounds)
  case Nil
  then show ?case by simp
next
  case (Cons el rest)
  from Cons.prems(1) have i: "i < length elements"
    by (metis drop_all list.distinct(1) not_le)
  from Cons.prems(1) i have el: "el = elements ! i"
    by (metis Cons_nth_drop_Suc list.inject)
  from Cons.prems(1) i have rest: "rest = drop (Suc i) elements"
    by (metis Cons_nth_drop_Suc list.inject)
  show ?case
  proof (cases "classify el = User")
    case True
    have "\<forall>pr \<in> set (sequentialPairingLoop classify keepPair elements (Suc i) rest (Some el) rounds).
            pairedWithinGap classify elements pr"
      by (rule Cons.IH [OF rest _ Cons.prems(3)]) (simp add: el True [unfolded el])
    with True show ?thesis by simp
  next
    case False
    then have asst: "classify el = Assistant" by (simp add: role_not_User)
    show ?thesis
    proof (cases remembered)
      case None
      have "\<forall>pr \<in> set (sequentialPairingLoop classify keepPair elements (Suc i) rest None rounds).
            pairedWithinGap classify elements pr"
        by (rule Cons.IH [OF rest _ Cons.prems(3)]) simp
      with False None show ?thesis by simp
    next
      case (Some u)
      with Cons.prems(2) have ipos: "0 < i" and u: "u = elements ! (i - 1)" and cu: "classify u = User"
        by auto
      from ipos i have iu: "indexOf elements u = int i - 1"
        using indexOf_nth [OF assms, of "i - 1"] u by (simp add: of_nat_diff)
      have ie: "indexOf elements el = int i"
        using indexOf_nth [OF assms i] el by simp
      have new: "pairedWithinGap classify elements (keepPair (int (length rounds) + 1) u el)"
        using i ipos u cu asst iu ie el
        by (simp add: pairedWithinGap_def keepPair_def)
      have "\<forall>pr \<in> set (sequentialPairingLoop classify keepPair elements (Suc i) rest None
                          (rounds @ [keepPair (int (length rounds) + 1) u el])).
            pairedWithinGap classify elements pr"
        by (rule Cons.IH [OF rest]) (use new Cons.prems(3) in auto)
      with False Some iu show ?thesis by (simp add: Let_def)
    qed
  qed
qed

lemma alternationLoop_gap:
  assumes "distinct elements"
  shows "rest = drop i elements \<Longrightarrow>
         (\<forall>u. remembered = Some u \<longrightarrow> 0 < i \<and> u = elements ! (i - 1) \<and> classify u = User) \<Longrightarrow>
         (\<forall>pr \<in> set rounds. pairedWithinGap classify elements pr) \<Longrightarrow>
         \<forall>pr \<in> set (alternationLoop classify keepPair rest remembered rounds).
            pairedWithinGap classify elements pr"
proof (induction rest arbitrary: i remembered rounds)
  case Nil
  then show ?case by simp
next
  case (Cons el rest)
  from Cons.prems(1) have i: "i < length elements"
    by (metis drop_all list.distinct(1) not_le)
  from Cons.prems(1) i have el: "el = elements ! i"
    by (metis Cons_nth_drop_Suc list.inject)
  from Cons.prems(1) i have rest: "rest = drop (Suc i) elements"
    by (metis Cons_nth_drop_Suc list.inject)
  show ?case
  proof (cases "classify el = User")
    case True
    have "\<forall>pr \<in> set (alternationLoop classify keepPair rest (Some el) rounds).
            pairedWithinGap classify elements pr"
      by (rule Cons.IH [OF rest _ Cons.prems(3)]) (simp add: el True [unfolded el])
    with True show ?thesis by simp
  next
    case False
    then have asst: "classify el = Assistant" by (simp add: role_not_User)
    show ?thesis
    proof (cases remembered)
      case None
      have "\<forall>pr \<in> set (alternationLoop classify keepPair rest None rounds).
            pairedWithinGap classify elements pr"
        by (rule Cons.IH [OF rest _ Cons.prems(3)]) simp
      with False None show ?thesis by simp
    next
      case (Some u)
      with Cons.prems(2) have ipos: "0 < i" and u: "u = elements ! (i - 1)" and cu: "classify u = User"
        by auto
      from ipos i have iu: "indexOf elements u = int i - 1"
        using indexOf_nth [OF assms, of "i - 1"] u by (simp add: of_nat_diff)
      have ie: "indexOf elements el = int i"
        using indexOf_nth [OF assms i] el by simp
      have new: "pairedWithinGap classify elements (keepPair (int (length rounds) + 1) u el)"
        using i ipos u cu asst iu ie el
        by (simp add: pairedWithinGap_def keepPair_def)
      have "\<forall>pr \<in> set (alternationLoop classify keepPair rest None
                          (rounds @ [keepPair (int (length rounds) + 1) u el])).
            pairedWithinGap classify elements pr"
        by (rule Cons.IH [OF rest]) (use new Cons.prems(3) in auto)
      with False Some show ?thesis by simp
    qed
  qed
qed

lemma sequentialPairingLoop_map:
  "sequentialPairingLoop classify mk elements i rest remembered (map (\<lambda>(n, u, a). mk n u a) rounds)
   = map (\<lambda>(n, u, a). mk n u a)
       (sequentialPairingLoop classify keepPair elements i rest remembered rounds)"
proof (induction rest arbitrary: i remembered rounds)
  case Nil
  show ?case by simp
next
  case (Cons el rest)
  have step: "\<And>u. map (\<lambda>(n, u, a). mk n u a) rounds @ [mk (int (length rounds) + 1) u el]
        = map (\<lambda>(n, u, a). mk n u a) (rounds @ [keepPair (int (length rounds) + 1) u el])"
    by (simp add: keepPair_def)
  show ?case
    by (simp add: Let_def step Cons.IH del: map_append split: option.splits)
qed

lemma alternationLoop_map:
  "alternationLoop classify mk rest remembered (map (\<lambda>(n, u, a). mk n u a) rounds)
   = map (\<lambda>(n, u, a). mk n u a) (alternationLoop classify keepPair rest remembered rounds)"
proof (induction rest arbitrary: remembered rounds)
  case Nil
  show ?case by simp
next
  case (Cons el rest)
  have step: "\<And>u. map (\<lambda>(n, u, a). mk n u a) rounds @ [mk (int (length rounds) + 1) u el]
        = map (\<lambda>(n, u, a). mk n u a) (rounds @ [keepPair (int (length rounds) + 1) u el])"
    by (simp add: keepPair_def)
  show ?case
    by (simp add: step Cons.IH del: map_append split: option.splits)
qed

section \<open>The orchestrator: properties\<close>

lemma js_gt_trans: "js_gt a b \<Longrightarrow> js_gt b c \<Longrightarrow> js_gt a c"
  by (cases a; cases b; cases c) auto

lemma js_gt_irrefl: "\<not> js_gt a a"
  by (cases a) auto

lemma evaluateExtraction_empty: "conversation cand = [] \<Longrightarrow> evaluateExtraction cand = NaN"
  by (simp add: evaluateExtraction_def)

lemma strategyLoop_append:
  "strategyLoop b (xs @ ys) = strategyLoop (strategyLoop b xs) ys"
  by (induction xs arbitrary: b) auto

lemma tryStrategy_None:
  "fst (tryStrategy b out) = None \<longleftrightarrow> fst b = None \<and> \<not> improves b out"
  by (cases b; cases out) (auto simp: improves_def Let_def)

lemma strategyLoop_None:
  "fst (strategyLoop b outs) = None \<longleftrightarrow>
     fst b = None \<and> (\<forall>i<length outs. \<not> improves (strategyLoop b (take i outs)) (outs ! i))"
proof (induction outs arbitrary: b)
  case Nil
  show ?case by simp
next
  case (Cons out outs)
  have split: "\<And>P. (\<forall>i<Suc (length outs). P i) \<longleftrightarrow> P 0 \<and> (\<forall>i<length outs. P (Suc i))"
    by (metis less_Suc_eq_0_disj)
  show ?case
    by (simp add: Cons.IH tryStrategy_None split)
qed

lemma bestOf_step: "bestOf seen b \<Longrightarrow> bestOf (seen @ [out]) (tryStrategy b out)"
proof (cases b)
  case (Pair br bs)
  assume inv: "bestOf seen b"
  show ?thesis
  proof (cases out)
    case (Inl e)
    with inv Pair show ?thesis by (auto simp: bestOf_def split: option.splits)
  next
    case (Inr r)
    show ?thesis
    proof (cases "js_gt (evaluateExtraction r) bs")
      case True
      then have "conversation r \<noteq> []"
        using evaluateExtraction_empty [of r] by auto
      with True inv Pair Inr show ?thesis
        by (auto simp: bestOf_def Let_def js_gt_irrefl split: option.splits dest: js_gt_trans)
    next
      case False
      with inv Pair Inr show ?thesis
        by (auto simp: bestOf_def Let_def split: option.splits)
    qed
  qed
qed

lemma bestOf_loop: "bestOf seen b \<Longrightarrow> bestOf (seen @ outs) (strategyLoop b outs)"
proof (induction outs arbitrary: seen b)
  case Nil
  then show ?case by simp
next
  case (Cons out outs)
  from Cons.IH [OF bestOf_step [OF Cons.prems, of out]] show ?case by simp
qed

lemma bestOf_init: "bestOf [] (None, Num 0)"
  by (simp add: bestOf_def)

lemma analyze_cases:
  "analyze h outs = (case fst (strategyLoop (None, Num 0) outs) of
        None \<Rightarrow> Inl AllStrategiesFailed | Some b \<Rightarrow> Inr (finish h b))"
  by (simp add: analyze_def finish_def Let_def split: option.splits)

lemma strategyLoop_skips_thrown:
  "strategyLoop b (pre @ Inl thrown # post) = strategyLoop b (pre @ post)"
  by (cases "strategyLoop b pre") (simp add: strategyLoop_append)

lemma strategyLoop_skips_empty:
  "conversation cand = [] \<Longrightarrow>
   strategyLoop b (pre @ Inr cand # post) = strategyLoop b (pre @ post)"
  by (cases "strategyLoop b pre") (simp add: strategyLoop_append evaluateExtraction_empty)

lemma probe_score: "evaluateExtraction (extractFromReactData exampleHost probedPair) = Num 46"
  by (simp add: evaluateExtraction_def extractFromReactData_def createExtractedConversation_def
        probedPair_def reactCreateConversationRound_def reactAnalyzeFormat_def Let_def)

lemma probe_rounds_nonempty: "conversation (extractFromReactData exampleHost probedPair) \<noteq> []"
  by (simp add: extractFromReactData_def createExtractedConversation_def probedPair_def)

text \<open>
  C1. A strategy that throws is skipped and the loop goes on; \<open>analyze()\<close> throws, and
  then its own terminal error, exactly when no strategy returned a result whose score
  was above the running best (0 at the start); otherwise it returns the validated
  result of a strategy that no other strategy outscored.
\<close>

theorem analyze_throws_iff_nothing_scored:
  "(analyze h outs = Inl AllStrategiesFailed \<longleftrightarrow>
      (\<forall>i<length outs. \<not> improves (strategyLoop (None, Num 0) (take i outs)) (outs ! i)))
   \<and> analyze h outs \<noteq> Inl NoContainerFound
   \<and> analyze h outs \<noteq> Inl (StrategyFailed msg)
   \<and> analyze h (pre @ Inl thrown # post) = analyze h (pre @ post)
   \<and> (analyze h outs \<noteq> Inl AllStrategiesFailed \<longrightarrow>
        (\<exists>w. Inr w \<in> set outs \<and> analyze h outs = Inr (finish h w)
           \<and> js_gt (evaluateExtraction w) (Num 0)
           \<and> (\<forall>r. Inr r \<in> set outs \<longrightarrow>
                  \<not> js_gt (evaluateExtraction r) (evaluateExtraction w))))"
proof (intro conjI)
  show "analyze h outs = Inl AllStrategiesFailed \<longleftrightarrow>
      (\<forall>i<length outs. \<not> improves (strategyLoop (None, Num 0) (take i outs)) (outs ! i))"
    using strategyLoop_None [of "(None, Num 0)" outs]
    by (auto simp: analyze_cases split: option.splits)
  show "analyze h outs \<noteq> Inl NoContainerFound"
    by (simp add: analyze_cases split: option.splits)
  show "analyze h outs \<noteq> Inl (StrategyFailed msg)"
    by (simp add: analyze_cases split: option.splits)
  show "analyze h (pre @ Inl thrown # post) = analyze h (pre @ post)"
    by (simp add: analyze_cases strategyLoop_skips_thrown)
  show "analyze h outs \<noteq> Inl AllStrategiesFailed \<longrightarrow>
        (\<exists>w. Inr w \<in> set outs \<and> analyze h outs = Inr (finish h w)
           \<and> js_gt (evaluateExtraction w) (Num 0)
           \<and> (\<forall>r. Inr r \<in> set outs \<longrightarrow>
                  \<not> js_gt (evaluateExtraction r) (evaluateExtraction w)))"
    using bestOf_loop [OF bestOf_init, of outs]
    by (auto simp: analyze_cases bestOf_def split: option.splits)
qed

theorem analyze_throws_iff_nothing_scored_witness:
  "improves (None, Num 0) (Inr (extractFromReactData exampleHost probedPair))
   \<and> analyze exampleHost [Inl NoContainerFound, Inr (extractFromReactData exampleHost probedPair)]
       = Inr (finish exampleHost (extractFromReactData exampleHost probedPair))
   \<and> analyze exampleHost [Inl NoContainerFound, Inl NoContainerFound] = Inl AllStrategiesFailed"
proof (intro conjI)
  let ?w = "extractFromReactData exampleHost probedPair"
  show imp: "improves (None, Num 0) (Inr ?w)"
    by (simp add: improves_def probe_score)
  have "\<not> (\<forall>i<length [Inl NoContainerFound, Inr ?w].
            \<not> improves (strategyLoop (None, Num 0) (take i [Inl NoContainerFound, Inr ?w]))
                 ([Inl NoContainerFound, Inr ?w] ! i))"
    using imp by (auto intro!: exI [of _ 1])
  with analyze_throws_iff_nothing_scored [of exampleHost "[Inl NoContainerFound, Inr ?w]"]
  show "analyze exampleHost [Inl NoContainerFound, Inr ?w] = Inr (finish exampleHost ?w)"
    by auto
  have "\<forall>i<length [Inl NoContainerFound, Inl NoContainerFound :: outcome].
            \<not> improves (strategyLoop (None, Num 0) (take i [Inl NoContainerFound, Inl NoContainerFound]))
                 ([Inl NoContainerFound, Inl NoContainerFound] ! i)"
    by (auto simp: improves_def less_Suc_eq)
  with analyze_throws_iff_nothing_scored [of exampleHost "[Inl NoContainerFound, Inl NoContainerFound]"]
  show "analyze exampleHost [Inl NoContainerFound, Inl NoContainerFound] = Inl AllStrategiesFailed"
    by blast
qed

text \<open>
  C3. A candidate with zero rounds scores \<open>NaN\<close>, which is above no running best: the
  loop leaves its state as it was, \<open>analyze()\<close> gives what it gives without that
  candidate, and the result \<open>analyze()\<close> validates is never a zero-round candidate.
\<close>

theorem zero_round_candidate_never_best:
  "(conversation cand = [] \<longrightarrow>
      evaluateExtraction cand = NaN
      \<and> \<not> js_gt (evaluateExtraction cand) bestScore
      \<and> tryStrategy (bestResult, bestScore) (Inr cand) = (bestResult, bestScore)
      \<and> analyze h (pre @ Inr cand # post) = analyze h (pre @ post))
   \<and> (fst (strategyLoop (None, Num 0) outs) = Some winner \<longrightarrow> conversation winner \<noteq> [])"
proof (intro conjI impI)
  assume e: "conversation cand = []"
  show "evaluateExtraction cand = NaN"
    by (rule evaluateExtraction_empty [OF e])
  show "\<not> js_gt (evaluateExtraction cand) bestScore"
    by (simp add: evaluateExtraction_empty [OF e])
  show "tryStrategy (bestResult, bestScore) (Inr cand) = (bestResult, bestScore)"
    by (simp add: evaluateExtraction_empty [OF e])
  show "analyze h (pre @ Inr cand # post) = analyze h (pre @ post)"
    by (simp add: analyze_cases strategyLoop_skips_empty [OF e])
next
  assume "fst (strategyLoop (None, Num 0) outs) = Some winner"
  with bestOf_loop [OF bestOf_init, of outs] show "conversation winner \<noteq> []"
    by (simp add: bestOf_def)
qed

theorem zero_round_candidate_never_best_witness:
  "conversation emptyResult = []
   \<and> evaluateExtraction emptyResult = NaN
   \<and> tryStrategy (None, Num 0) (Inr emptyResult) = (None, Num 0)
   \<and> analyze exampleHost [Inr emptyResult, Inr (extractFromReactData exampleHost probedPair)]
       = analyze exampleHost [Inr (extractFromReactData exampleHost probedPair)]
   \<and> fst (strategyLoop (None, Num 0) [Inr emptyResult, Inr (extractFromReactData exampleHost probedPair)])
       = Some (extractFromReactData exampleHost probedPair)
   \<and> conversation (extractFromReactData exampleHost probedPair) \<noteq> []"
proof -
  let ?w = "extractFromReactData exampleHost probedPair"
  have e: "conversation emptyResult = []"
    by (simp add: emptyResult_def createExtractedConversation_def)
  have w: "fst (strategyLoop (None, Num 0) [Inr emptyResult, Inr ?w]) = Some ?w"
    by (simp add: evaluateExtraction_empty [OF e] probe_score)
  from e w
    zero_round_candidate_never_best [of emptyResult "Num 0" None exampleHost "[]" "[Inr ?w]"
      "[Inr emptyResult, Inr ?w]" ?w]
  show ?thesis by simp
qed

section \<open>The validation pass and the rounds: properties\<close>

lemma validateAndEnhance_conversation:
  "conversation (validateAndEnhance h r) = filter keptByValidation (conversation r)"
  by (auto simp: validateAndEnhance_def Let_def keptByValidation_def intro!: filter_cong)

lemma finish_conversation:
  "conversation (finish h r) = filter keptByValidation (conversation r)"
  by (simp add: finish_def Let_def validateAndEnhance_conversation)

lemma finish_confidenceScore:
  "confidenceScore (metadata (finish h r)) = confidenceScore (metadata r)"
  by (simp add: finish_def Let_def validateAndEnhance_def)

lemma analyze_returns_finished:
  "analyze h outs = Inr res \<Longrightarrow> \<exists>w. Inr w \<in> set outs \<and> res = finish h w"
  using bestOf_loop [OF bestOf_init, of outs]
  by (auto simp: analyze_cases bestOf_def split: option.splits)

lemma alternationLoop_built:
  "r \<in> set (alternationLoop classify mk rest None []) \<Longrightarrow> \<exists>n u a. r = mk n u a"
  using alternationLoop_map [of classify mk rest None "[]"] by auto

lemma sequentialPairingLoop_built:
  "r \<in> set (sequentialPairingLoop classify mk elements i rest None []) \<Longrightarrow> \<exists>n u a. r = mk n u a"
  using sequentialPairingLoop_map [of classify mk elements i rest None "[]"] by auto

lemma structure_rounds_built:
  assumes "r \<in> set (extractUsingStructureAnalysis h doc container)"
  shows "\<exists>n u a. r = createConversationRound h doc n u a"
proof (cases "List.map_filter (processMessageCluster h doc) (findMessageClusters doc container) = []")
  case True
  with assms have "r \<in> set (fallbackToSequentialPairing h doc container)"
    by (simp add: extractUsingStructureAnalysis_def Let_def)
  then show ?thesis
    unfolding fallbackToSequentialPairing_def Let_def by (rule sequentialPairingLoop_built)
next
  case False
  with assms obtain cluster where "processMessageCluster h doc cluster = Some r"
    by (auto simp: extractUsingStructureAnalysis_def Let_def map_filter_def)
  then show ?thesis
    by (auto simp: processMessageCluster_def split: if_splits prod.splits option.splits)
qed

lemma dom_rounds_built:
  "r \<in> set (conversation (extractFromDOM h doc container)) \<Longrightarrow>
   \<exists>n u a. r = createConversationRoundFromElements h doc n u a"
  by (simp add: extractFromDOM_def createExtractedConversation_def alternationLoop_built)

lemma probe_rounds_built:
  "r \<in> set (conversation (extractFromReactData h messages)) \<Longrightarrow>
   \<exists>n u a. r = reactCreateConversationRound h n u a"
  by (simp add: extractFromReactData_def createExtractedConversation_def alternationLoop_built)

lemma createConversationRound_typed: "roundTyped (createConversationRound h doc n u a)"
  by (simp add: roundTyped_def createConversationRound_def Let_def)

lemma reactCreateConversationRound_typed: "roundTyped (reactCreateConversationRound h n u a)"
  by (simp add: roundTyped_def reactCreateConversationRound_def Let_def)

lemma createConversationRoundFromElements_typed:
  "roundTyped (createConversationRoundFromElements h doc n u a)"
  by (simp add: roundTyped_def createConversationRoundFromElements_def Let_def)

lemma structureExecute_typed:
  assumes "structureExecute h doc found = Inr r" and "x \<in> set (conversation r)"
  shows "roundTyped x"
proof -
  from assms have "x \<in> set (extractUsingStructureAnalysis h doc (the found))"
    by (auto simp: structureExecute_def createExtractedConversation_def split: option.splits)
  from structure_rounds_built [OF this] show ?thesis
    by (auto simp: createConversationRound_typed)
qed

lemma reactExecute_typed:
  assumes "reactExecute h doc found reactData = Inr r" and "x \<in> set (conversation r)"
  shows "roundTyped x"
proof -
  from assms have "x \<in> set (conversation (extractFromReactData h (the reactData)))
                   \<or> x \<in> set (conversation (extractFromDOM h doc (the found)))"
    by (auto simp: reactExecute_def split: option.splits)
  then show ?thesis
    using probe_rounds_built [of x h "the reactData"] dom_rounds_built [of x h doc "the found"]
    by (auto simp: reactCreateConversationRound_typed createConversationRoundFromElements_typed)
qed

lemma pageEmptyBubble_structure:
  "extractUsingStructureAnalysis exampleHost pageEmptyBubble [] = []"
  by code_simp

lemma trim_eval1: "trim ''What is 2+2?'' = ''What is 2+2?''"
  by (simp add: trim_def isWhiteSpace_def)

lemma trim_eval2: "trim ''4'' = ''4''"
  by (simp add: trim_def isWhiteSpace_def)

lemma empty_score: "evaluateExtraction (createExtractedConversation h [] s) = NaN"
  by (simp add: evaluateExtraction_empty createExtractedConversation_def)

lemma example_page_result:
  "analyzePage exampleHost pageEmptyBubble (Some []) (Some probedPair)
     (Inr (extractFromReactData exampleHost probedPair))
     = Inr (finish exampleHost (extractFromReactData exampleHost probedPair))"
  by (simp add: analyzePage_def analyze_cases reactExecute_def structureExecute_def
        pageEmptyBubble_structure probe_score empty_score)

lemma example_page_rounds:
  "conversation (finish exampleHost (extractFromReactData exampleHost probedPair))
     = [reactCreateConversationRound exampleHost 1
          \<lparr> pm_role = User, pm_content = ''What is 2+2?'' \<rparr>
          \<lparr> pm_role = Assistant, pm_content = ''4'' \<rparr>]"
  by (simp add: finish_conversation keptByValidation_def extractFromReactData_def
        createExtractedConversation_def probedPair_def reactCreateConversationRound_def
        reactExtractText_def exampleHost_def trim_eval1 trim_eval2 Let_def)

lemma example_visual_typed:
  "\<forall>r. (Inr (extractFromReactData exampleHost probedPair) :: outcome) = Inr r \<longrightarrow>
         (\<forall>round \<in> set (conversation r). roundTyped round)"
proof (intro allI impI ballI)
  fix r x
  assume "(Inr (extractFromReactData exampleHost probedPair) :: outcome) = Inr r"
    and "x \<in> set (conversation r)"
  then have "x \<in> set (conversation (extractFromReactData exampleHost probedPair))" by simp
  from probe_rounds_built [OF this] show "roundTyped x"
    by (auto simp: reactCreateConversationRound_typed)
qed

text \<open>
  C2. Every round of the conversation that \<open>analyze()\<close> returns has a user message of
  role user and an assistant message of role assistant, both with text that is not
  empty after trimming. The rounds of the probe strategy and of the structure strategy
  get their roles from the constructors; \<open>VisualStrategy\<close> has to return rounds of type
  \<open>ConversationRound\<close>, as its signature says.
\<close>

theorem returned_rounds_typed_and_nonempty:
  assumes ret: "analyzePage h doc found reactData visual = Inr res"
    and visual: "\<forall>r. visual = Inr r \<longrightarrow> (\<forall>round \<in> set (conversation r). roundTyped round)"
  shows "\<forall>round \<in> set (conversation res).
           m_role (user round) = User \<and> m_role (assistant round) = Assistant
           \<and> trim (m_text (user round)) \<noteq> [] \<and> trim (m_text (assistant round)) \<noteq> []"
proof -
  from analyze_returns_finished [OF ret [unfolded analyzePage_def]]
  obtain w where w: "Inr w \<in> set [reactExecute h doc found reactData, structureExecute h doc found, visual]"
    and res: "res = finish h w" by blast
  from w have typed: "\<forall>round \<in> set (conversation w). roundTyped round"
    using reactExecute_typed [of h doc found reactData w] structureExecute_typed [of h doc found w]
      visual by auto
  show ?thesis
    using typed by (auto simp: res finish_conversation keptByValidation_def roundTyped_def)
qed

theorem returned_rounds_typed_and_nonempty_witness:
  "analyzePage exampleHost pageEmptyBubble (Some []) (Some probedPair)
     (Inr (extractFromReactData exampleHost probedPair))
     = Inr (finish exampleHost (extractFromReactData exampleHost probedPair))
   \<and> conversation (finish exampleHost (extractFromReactData exampleHost probedPair))
     = [reactCreateConversationRound exampleHost 1
          \<lparr> pm_role = User, pm_content = ''What is 2+2?'' \<rparr>
          \<lparr> pm_role = Assistant, pm_content = ''4'' \<rparr>]
   \<and> m_role (user (reactCreateConversationRound exampleHost 1
          \<lparr> pm_role = User, pm_content = ''What is 2+2?'' \<rparr>
          \<lparr> pm_role = Assistant, pm_content = ''4'' \<rparr>)) = User
   \<and> m_role (assistant (reactCreateConversationRound exampleHost 1
          \<lparr> pm_role = User, pm_content = ''What is 2+2?'' \<rparr>
          \<lparr> pm_role = Assistant, pm_content = ''4'' \<rparr>)) = Assistant
   \<and> trim (m_text (user (reactCreateConversationRound exampleHost 1
          \<lparr> pm_role = User, pm_content = ''What is 2+2?'' \<rparr>
          \<lparr> pm_role = Assistant, pm_content = ''4'' \<rparr>))) \<noteq> []
   \<and> trim (m_text (assistant (reactCreateConversationRound exampleHost 1
          \<lparr> pm_role = User, pm_content = ''What is 2+2?'' \<rparr>
          \<lparr> pm_role = Assistant, pm_content = ''4'' \<rparr>))) \<noteq> []"
proof -
  from returned_rounds_typed_and_nonempty [OF example_page_result example_visual_typed]
    example_page_result
    example_page_rounds
  show ?thesis by simp
qed

lemma empty_question_score:
  "evaluateExtraction (extractFromReactData exampleHost probedEmptyQuestion) = Num 46"
  by (simp add: evaluateExtraction_def extractFromReactData_def createExtractedConversation_def
        probedEmptyQuestion_def reactCreateConversationRound_def reactAnalyzeFormat_def Let_def)

text \<open>
  C7 at a failing input. The probe reads a question without content and its answer.
  The one round scores 46 and wins; validation drops it, and the result that goes to
  the caller has no rounds but still the confidence score 0.9 of the dropped round,
  where the mean over its rounds is 0. For any winner, what \<open>analyze()\<close> does after the
  loop leaves the confidence score as the strategy computed it.
\<close>

theorem stale_confidence_after_validation:
  "analyzePage exampleHost pageEmptyBubble (Some []) (Some probedEmptyQuestion) (Inl (StrategyFailed []))
     = Inr (finish exampleHost (extractFromReactData exampleHost probedEmptyQuestion))
   \<and> conversation (finish exampleHost (extractFromReactData exampleHost probedEmptyQuestion)) = []
   \<and> confidenceScore (metadata (finish exampleHost (extractFromReactData exampleHost probedEmptyQuestion)))
       = 9 / 10
   \<and> meanConfidence (conversation (finish exampleHost (extractFromReactData exampleHost probedEmptyQuestion)))
       = 0
   \<and> confidenceScore (metadata (finish h winner)) = confidenceScore (metadata winner)"
proof -
  have r: "analyzePage exampleHost pageEmptyBubble (Some []) (Some probedEmptyQuestion) (Inl (StrategyFailed []))
     = Inr (finish exampleHost (extractFromReactData exampleHost probedEmptyQuestion))"
    by (simp add: analyzePage_def analyze_cases reactExecute_def structureExecute_def
        pageEmptyBubble_structure empty_question_score empty_score)
  have c: "conversation (finish exampleHost (extractFromReactData exampleHost probedEmptyQuestion)) = []"
    by (simp add: finish_conversation keptByValidation_def extractFromReactData_def
        createExtractedConversation_def probedEmptyQuestion_def reactCreateConversationRound_def
        reactExtractText_def exampleHost_def trim_def Let_def)
  have s: "confidenceScore (metadata (finish exampleHost (extractFromReactData exampleHost probedEmptyQuestion)))
       = 9 / 10"
    by (simp add: finish_confidenceScore extractFromReactData_def createExtractedConversation_def
        probedEmptyQuestion_def reactCreateConversationRound_def meanConfidence_def Let_def)
  show ?thesis using r c s by (simp add: meanConfidence_def finish_confidenceScore)
qed

section \<open>BaseStrategy: properties\<close>

text \<open>
  C10 at a failing input. The first bubble of the page has no text at all; the filter
  returns it next to the bubble with text, although its trimmed text has length 0.
\<close>

theorem empty_element_passes_candidate_filter:
  "extractMessageElements pageEmptyBubble [] = [[0], [1]]
   \<and> textContent (props (nodeAt pageEmptyBubble [0])) = []
   \<and> length (trim (textContent (props (nodeAt pageEmptyBubble [0])))) = 0"
  by code_simp

section \<open>Confidence: properties\<close>

lemma calculatePathSimilarity_nonneg: "0 \<le> calculatePathSimilarity p1 p2"
  by (simp add: calculatePathSimilarity_def Let_def)

lemma calculateStyleSimilarity_nonneg: "0 \<le> calculateStyleSimilarity doc e1 e2"
  by (simp add: calculateStyleSimilarity_def Let_def)

lemma calculateStructureConfidence_bounds:
  "6 / 10 \<le> calculateStructureConfidence doc u a \<and> calculateStructureConfidence doc u a \<le> 95 / 100"
proof -
  have p: "0 \<le> calculatePathSimilarity (getElementPath doc u) (getElementPath doc a) * 0.2"
    using calculatePathSimilarity_nonneg by simp
  have s: "0 \<le> calculateStyleSimilarity doc u a * 0.15"
    using calculateStyleSimilarity_nonneg by simp
  show ?thesis
    using p s by (simp add: calculateStructureConfidence_def Let_def min_def)
qed

lemma calculateConfidence_bounds:
  "7 / 10 \<le> calculateConfidence doc u a \<and> calculateConfidence doc u a \<le> 95 / 100"
  by (simp add: calculateConfidence_def Let_def min_def)

text \<open>
  C8. The confidence of a round of the structure strategy lies between 0.6 and 0.95,
  that of a round of the probe's DOM fallback between 0.7 and 0.95, and a round built
  from probe records has 0.9; so every round the two strategies emit has a confidence
  in \<open>[0, 1]\<close> that does not exceed 0.95.
\<close>

theorem round_confidence_bounds:
  "6 / 10 \<le> calculateStructureConfidence doc u a
   \<and> calculateStructureConfidence doc u a \<le> 95 / 100
   \<and> 7 / 10 \<le> calculateConfidence doc u a
   \<and> calculateConfidence doc u a \<le> 95 / 100
   \<and> extractionConfidence (r_metadata (reactCreateConversationRound h n um am)) = 9 / 10
   \<and> (\<forall>r \<in> set (extractUsingStructureAnalysis h doc container)
             \<union> set (conversation (extractFromDOM h doc container))
             \<union> set (conversation (extractFromReactData h messages)).
         0 \<le> extractionConfidence (r_metadata r)
         \<and> extractionConfidence (r_metadata r) \<le> 1
         \<and> extractionConfidence (r_metadata r) \<le> 95 / 100)"
proof -
  have A: "6 / 10 \<le> calculateStructureConfidence doc x y
           \<and> calculateStructureConfidence doc x y \<le> 95 / 100" for x y
    by (rule calculateStructureConfidence_bounds)
  have B: "7 / 10 \<le> calculateConfidence doc x y \<and> calculateConfidence doc x y \<le> 95 / 100" for x y
    by (rule calculateConfidence_bounds)
  have P: "extractionConfidence (r_metadata (reactCreateConversationRound h k x y)) = 9 / 10" for k x y
    by (simp add: reactCreateConversationRound_def Let_def)
  have S: "0 \<le> extractionConfidence (r_metadata r) \<and> extractionConfidence (r_metadata r) \<le> 1
           \<and> extractionConfidence (r_metadata r) \<le> 95 / 100"
    if "r \<in> set (extractUsingStructureAnalysis h doc container)" for r
  proof -
    from structure_rounds_built [OF that] obtain k x y where "r = createConversationRound h doc k x y"
      by blast
    then have "extractionConfidence (r_metadata r) = calculateStructureConfidence doc x y"
      by (simp add: createConversationRound_def Let_def)
    with A [of x y] show ?thesis by simp
  qed
  have D: "0 \<le> extractionConfidence (r_metadata r) \<and> extractionConfidence (r_metadata r) \<le> 1
           \<and> extractionConfidence (r_metadata r) \<le> 95 / 100"
    if "r \<in> set (conversation (extractFromDOM h doc container))" for r
  proof -
    from dom_rounds_built [OF that] obtain k x y
      where "r = createConversationRoundFromElements h doc k x y" by blast
    then have "extractionConfidence (r_metadata r) = calculateConfidence doc x y"
      by (simp add: createConversationRoundFromElements_def Let_def)
    with B [of x y] show ?thesis by simp
  qed
  have R: "0 \<le> extractionConfidence (r_metadata r) \<and> extractionConfidence (r_metadata r) \<le> 1
           \<and> extractionConfidence (r_metadata r) \<le> 95 / 100"
    if "r \<in> set (conversation (extractFromReactData h messages))" for r
  proof -
    from probe_rounds_built [OF that] obtain k x y
      where "r = reactCreateConversationRound h k x y" by blast
    with P [of k x y] show ?thesis by simp
  qed
  show ?thesis
    using A [of u a] B [of u a] P [of n um am] S D R by blast
qed

lemma qa_elements: "extractMessageElements pageQuestionAnswer [] = [[0], [1]]"
  by code_simp

lemma qa_roles:
  "classifyMessage pageQuestionAnswer [0] = User"
  "classifyMessage pageQuestionAnswer [Suc 0] = Assistant"
  by code_simp+

lemma qa_dom_rounds:
  "conversation (extractFromDOM exampleHost pageQuestionAnswer [])
     = [createConversationRoundFromElements exampleHost pageQuestionAnswer 1 [0] [1]]"
  by (simp add: extractFromDOM_def createExtractedConversation_def qa_elements qa_roles)

lemma qa_confidence: "calculateConfidence pageQuestionAnswer [0] [Suc 0] = 8 / 10"
proof -
  have w: "findCommonWords ''message user'' ''message assistant'' = [''message'']"
    by code_simp
  show ?thesis
    by (simp add: calculateConfidence_def Let_def pageQuestionAnswer_def plainElement_def w)
qed

theorem round_confidence_bounds_witness:
  "conversation (extractFromDOM exampleHost pageQuestionAnswer [])
     = [createConversationRoundFromElements exampleHost pageQuestionAnswer 1 [0] [1]]
   \<and> extractionConfidence (r_metadata
         (createConversationRoundFromElements exampleHost pageQuestionAnswer 1 [0] [1])) = 8 / 10
   \<and> 0 \<le> extractionConfidence (r_metadata
         (createConversationRoundFromElements exampleHost pageQuestionAnswer 1 [0] [1]))
   \<and> extractionConfidence (r_metadata
         (createConversationRoundFromElements exampleHost pageQuestionAnswer 1 [0] [1])) \<le> 1
   \<and> extractionConfidence (r_metadata
         (createConversationRoundFromElements exampleHost pageQuestionAnswer 1 [0] [1])) \<le> 95 / 100"
proof -
  have c: "extractionConfidence (r_metadata
         (createConversationRoundFromElements exampleHost pageQuestionAnswer 1 [0] [1])) = 8 / 10"
    by (simp add: createConversationRoundFromElements_def Let_def qa_confidence)
  from round_confidence_bounds [of pageQuestionAnswer "[0]" "[1]" exampleHost 1
         "probedPair ! 0" "probedPair ! 1" "[]" probedPair]
  show ?thesis using qa_dom_rounds c by simp
qed

section \<open>Sequential pairing: properties\<close>

text \<open>
  C4. Both DOM-level pairing loops, run with the constructor that keeps the paired
  elements, give the pairs behind the rounds they emit. Whatever function classifies
  the elements, in each pair the assistant element comes after the user element and
  at most 3 positions after it in the filtered element list: every element is
  classified user or assistant, so the remembered user is always the element just
  before. The last part is the guard of \<open>fallbackToSequentialPairing\<close>: with a
  remembered user more than 3 positions back, an assistant element changes nothing.
\<close>

theorem sequential_pairing_within_gap:
  "fallbackToSequentialPairing h doc container
     = map (\<lambda>(n, u, a). createConversationRound h doc n u a)
         (sequentialPairingLoop (classifyMessage doc) keepPair
            (extractMessageElements doc container) 0 (extractMessageElements doc container) None [])
   \<and> conversation (extractFromDOM h doc container)
     = map (\<lambda>(n, u, a). createConversationRoundFromElements h doc n u a)
         (alternationLoop (classifyMessage doc) keepPair (extractMessageElements doc container) None [])
   \<and> (\<forall>pr \<in> set (sequentialPairingLoop roleOf keepPair
                     (extractMessageElements doc container) 0 (extractMessageElements doc container) None [])
              \<union> set (alternationLoop roleOf keepPair
                     (extractMessageElements doc container) None []).
         pairedWithinGap roleOf (extractMessageElements doc container) pr)
   \<and> (classify el = Assistant \<and> int i - indexOf elements remembered > 3 \<longrightarrow>
        sequentialPairingLoop classify mk elements i (el # rest) (Some remembered) rounds
        = sequentialPairingLoop classify mk elements (Suc i) rest (Some remembered) rounds)"
proof (intro conjI)
  let ?els = "extractMessageElements doc container"
  have d: "distinct ?els" by (rule extractMessageElements_distinct)
  show "fallbackToSequentialPairing h doc container
     = map (\<lambda>(n, u, a). createConversationRound h doc n u a)
         (sequentialPairingLoop (classifyMessage doc) keepPair ?els 0 ?els None [])"
    using sequentialPairingLoop_map [of "classifyMessage doc" "createConversationRound h doc" ?els 0 ?els None "[]"]
    by (simp add: fallbackToSequentialPairing_def Let_def)
  show "conversation (extractFromDOM h doc container)
     = map (\<lambda>(n, u, a). createConversationRoundFromElements h doc n u a)
         (alternationLoop (classifyMessage doc) keepPair ?els None [])"
    using alternationLoop_map [of "classifyMessage doc" "createConversationRoundFromElements h doc" ?els None "[]"]
    by (simp add: extractFromDOM_def createExtractedConversation_def)
  have s: "\<forall>pr \<in> set (sequentialPairingLoop roleOf keepPair ?els 0 ?els None []).
             pairedWithinGap roleOf ?els pr"
    by (rule sequentialPairingLoop_gap [OF d]) simp_all
  have r: "\<forall>pr \<in> set (alternationLoop roleOf keepPair ?els None []).
             pairedWithinGap roleOf ?els pr"
    by (rule alternationLoop_gap [OF d, where i = 0]) simp_all
  show "\<forall>pr \<in> set (sequentialPairingLoop roleOf keepPair ?els 0 ?els None [])
              \<union> set (alternationLoop roleOf keepPair ?els None []).
         pairedWithinGap roleOf ?els pr"
    using s r by blast
  show "classify el = Assistant \<and> int i - indexOf elements remembered > 3 \<longrightarrow>
        sequentialPairingLoop classify mk elements i (el # rest) (Some remembered) rounds
        = sequentialPairingLoop classify mk elements (Suc i) rest (Some remembered) rounds"
    by (simp add: Let_def)
qed

lemma qa_pairs:
  "sequentialPairingLoop (classifyMessage pageQuestionAnswer) keepPair [[0], [1]] 0 [[0], [1]] None []
     = [(1, [0], [1])]
   \<and> alternationLoop (classifyMessage pageQuestionAnswer) keepPair [[0], [1]] None [] = [(1, [0], [1])]"
  by (simp add: qa_roles keepPair_def)

theorem sequential_pairing_within_gap_witness:
  "sequentialPairingLoop (classifyMessage pageQuestionAnswer) keepPair
      (extractMessageElements pageQuestionAnswer []) 0 (extractMessageElements pageQuestionAnswer [])
      None [] = [(1, [0], [1])]
   \<and> alternationLoop (classifyMessage pageQuestionAnswer) keepPair
      (extractMessageElements pageQuestionAnswer []) None [] = [(1, [0], [1])]
   \<and> pairedWithinGap (classifyMessage pageQuestionAnswer)
        (extractMessageElements pageQuestionAnswer []) (1, [0], [1])
   \<and> int 4 - indexOf [[0], [1], [2], [3], [4 :: nat]] [0] > 3
   \<and> sequentialPairingLoop (\<lambda>e. if e = [0 :: nat] then User else Assistant) keepPair
        [[0], [1], [2], [3], [4]] 4 [[4]] (Some [0]) []
      = sequentialPairingLoop (\<lambda>e. if e = [0 :: nat] then User else Assistant) keepPair
        [[0], [1], [2], [3], [4]] 5 [] (Some [0]) []"
proof -
  have g: "int 4 - indexOf [[0], [1], [2], [3], [4 :: nat]] [0] > 3" by simp
  from sequential_pairing_within_gap [of exampleHost pageQuestionAnswer "[]"
         "classifyMessage pageQuestionAnswer"
         "\<lambda>e. if e = [0 :: nat] then User else Assistant" "[4]" 4 "[[0], [1], [2], [3], [4]]" "[0]"
         keepPair "[]" "[]"]
  show ?thesis using g qa_pairs by (simp add: qa_elements)
qed

section \<open>The probe: properties\<close>

text \<open>
  C9 as the specification words it fails in both directions: a prop key with chat in
  it does not make a match, and a prop key with role in it does, whatever the value of
  the prop.
\<close>

theorem isMessageComponent_not_spec:
  "\<not> isMessageComponent (ComponentType [] ''Row'') [(''chatId'', OtherValue)]
   \<and> specIsMessageComponent (ComponentType [] ''Row'') [(''chatId'', OtherValue)]
   \<and> isMessageComponent (HostType ''div'') [(''role'', StringValue ''button'')]
   \<and> \<not> specIsMessageComponent (HostType ''div'') [(''role'', StringValue ''button'')]"
  by code_simp

text \<open>
  C9, amended. \<open>isMessageComponent\<close> matches exactly when the fiber has a type and
  its lower-cased type name contains message, chat or bubble, or a lower-cased prop
  key contains message or role, or the role prop is the string user or assistant.
\<close>

theorem isMessageComponent_iff:
  "isMessageComponent type fprops \<longleftrightarrow>
     type \<noteq> NoType \<and> type \<noteq> HostType [] \<and>
     (let typeName = (case type of
                        HostType tag \<Rightarrow> tag
                      | ComponentType displayName name \<Rightarrow>
                          (if displayName \<noteq> [] then displayName else name)
                      | NoType \<Rightarrow> [])
      in (\<exists>kw \<in> {''message'', ''chat'', ''bubble''}. strIncludes (toLowerCase typeName) kw)
         \<or> (\<exists>key \<in> fst ` set fprops. \<exists>kw \<in> {''message'', ''role''}. strIncludes (toLowerCase key) kw)
         \<or> map_of fprops ''role'' = Some (StringValue ''user'')
         \<or> map_of fprops ''role'' = Some (StringValue ''assistant''))"
  by (auto simp: isMessageComponent_def Let_def list_ex_iff)

theorem isMessageComponent_iff_witness:
  "isMessageComponent (ComponentType [] ''ChatBubble'') []
   \<and> isMessageComponent (HostType ''div'') [(''userRole'', OtherValue)]"
proof -
  have a: "strIncludes (toLowerCase ''ChatBubble'') ''chat''" by code_simp
  have b: "strIncludes (toLowerCase ''userRole'') ''role''" by code_simp
  from isMessageComponent_iff [of "ComponentType [] ''ChatBubble''" "[]"]
    isMessageComponent_iff [of "HostType ''div''" "[(''userRole'', OtherValue)]"] a b
  show ?thesis by (simp add: Let_def)
qed

section \<open>Structural clustering: properties\<close>

text \<open>
  C6 as stated fails: on the page without keywords the first turn is a clustering
  candidate although its markup has none of the words of the candidate filter and the
  filter does not return it; and its inner block is a candidate too, inside another
  candidate.
\<close>

theorem clustering_candidate_without_keyword:
  "[0] \<in> set (candidateElements pagePlain [])
   \<and> \<not> hasMessageIndicators (props (nodeAt pagePlain [0]))
   \<and> [0] \<notin> set (extractMessageElements pagePlain [])
   \<and> [0, 0] \<in> set (candidateElements pagePlain [])
   \<and> contains [0] [0, 0]"
  by code_simp

text \<open>
  C6, amended. The candidates of the clustering step are exactly the descendants of
  the container with (trimmed text of length at least 20, or code) and (a child, or
  subtree depth above 2) and trimmed text longer than 10.
\<close>

theorem clustering_candidates_iff:
  "el \<in> set (candidateElements doc container) \<longleftrightarrow>
     el \<in> set (querySelectorAll doc container selAll)
     \<and> (length (trim (textContent (props (nodeAt doc el)))) \<ge> 20 \<or> containsCode doc el)
     \<and> (length (children (nodeAt doc el)) > 0 \<or> calculateMaxDepth (nodeAt doc el) 0 > 2)
     \<and> length (trim (textContent (props (nodeAt doc el)))) > 10"
  by (auto simp: candidateElements_def clusterFilter_def Let_def)

theorem clustering_candidates_iff_witness:
  "[0] \<in> set (querySelectorAll pagePlain [] selAll)
   \<and> length (trim (textContent (props (nodeAt pagePlain [0])))) = 33
   \<and> length (children (nodeAt pagePlain [0])) = 1
   \<and> [0] \<in> set (candidateElements pagePlain [])"
proof -
  have a: "[0] \<in> set (querySelectorAll pagePlain [] selAll)" by code_simp
  have b: "length (trim (textContent (props (nodeAt pagePlain [0])))) = 33" by code_simp
  have c: "length (children (nodeAt pagePlain [0])) = 1" by code_simp
  from clustering_candidates_iff [of "[0]" pagePlain "[]"] a b c
  show ?thesis by (simp del: nodeAt.simps)
qed

text \<open>
  C5 as stated fails: from the first candidate of the page with three siblings the
  walk over the next siblings passes the list, which is a candidate of another shape,
  and takes the third sibling into the cluster.
\<close>

theorem walk_skips_dissimilar_sibling:
  "candidateElements pageThree [] = [[0], [1], [2]]
   \<and> \<not> isSimilarSignature (calculateElementSignature pageThree [0])
                            (calculateElementSignature pageThree [1])
   \<and> nextElementSibling pageThree [0] = Some [1]
   \<and> walkNext pageThree (candidateElements pageThree [])
        (calculateElementSignature pageThree [0]) (nextElementSibling pageThree [0])
        ([[0]], {[0]})
      = ([[0], [2]], {[0], [2]})
   \<and> findMessageClusters pageThree [] = [[[0], [2]]]"
  by code_simp

lemma nextElementSibling_child:
  "nextElementSibling doc (p @ [i]) =
     (if Suc i < length (children (nodeAt doc p)) then Some (p @ [Suc i]) else None)"
  by (simp add: nextElementSibling_def)

lemma previousElementSibling_child:
  "previousElementSibling doc (p @ [i]) = (if i = 0 then None else Some (p @ [i - 1]))"
  by (simp add: previousElementSibling_def)

lemma takeWhile_walkable_insert:
  "s \<notin> set xs \<Longrightarrow>
   takeWhile (walkable cands (insert s processed)) xs = takeWhile (walkable cands processed) xs"
  by (rule takeWhile_cong) (auto simp: walkable_def)

lemma walkNext_step:
  "walkNext doc cands sig (Some s) (cluster, processed) =
     (if walkable cands processed s
      then walkNext doc cands sig (nextElementSibling doc s)
             (if similarTo doc sig s then (cluster @ [s], insert s processed)
              else (cluster, processed))
      else (cluster, processed))"
  by (simp add: walkable_def similarTo_def)

lemma walkPrev_step:
  "walkPrev doc cands sig (Some s) (cluster, processed) =
     (if walkable cands processed s
      then walkPrev doc cands sig (previousElementSibling doc s)
             (if similarTo doc sig s then (s # cluster, insert s processed)
              else (cluster, processed))
      else (cluster, processed))"
  by (simp add: walkable_def similarTo_def)

lemma walkNext_run:
  "n = length (children (nodeAt doc p)) \<Longrightarrow> k = n - i \<Longrightarrow>
   walkNext doc cands sig (if i < n then Some (p @ [i]) else None) (cluster, processed)
   = (cluster @ filter (similarTo doc sig)
                  (takeWhile (walkable cands processed) (map (\<lambda>j. p @ [j]) [i..<n])),
      processed \<union> set (filter (similarTo doc sig)
                  (takeWhile (walkable cands processed) (map (\<lambda>j. p @ [j]) [i..<n]))))"
proof (induction k arbitrary: i cluster processed)
  case 0
  then show ?case by simp
next
  case (Suc k)
  then have i: "i < n" and k: "k = n - Suc i" by auto
  have upt: "[i..<n] = i # [Suc i..<n]" using i by (simp add: upt_conv_Cons)
  have notin: "p @ [i] \<notin> set (map (\<lambda>j. p @ [j]) [Suc i..<n])" by auto
  have nxt: "nextElementSibling doc (p @ [i]) = (if Suc i < n then Some (p @ [Suc i]) else None)"
    by (simp add: nextElementSibling_child Suc.prems(1))
  show ?case
  proof (cases "walkable cands processed (p @ [i])")
    case False
    then show ?thesis using i by (simp add: upt walkNext_step del: walkNext.simps)
  next
    case True
    note ok = this
    show ?thesis
    proof (cases "similarTo doc sig (p @ [i])")
      case True
      have "walkNext doc cands sig (if i < n then Some (p @ [i]) else None) (cluster, processed)
            = walkNext doc cands sig (if Suc i < n then Some (p @ [Suc i]) else None)
                (cluster @ [p @ [i]], insert (p @ [i]) processed)"
        using i ok True by (simp add: walkNext_step nxt del: walkNext.simps)
      also have "\<dots> = ((cluster @ [p @ [i]]) @ filter (similarTo doc sig)
                  (takeWhile (walkable cands (insert (p @ [i]) processed)) (map (\<lambda>j. p @ [j]) [Suc i..<n])),
             insert (p @ [i]) processed \<union> set (filter (similarTo doc sig)
                  (takeWhile (walkable cands (insert (p @ [i]) processed)) (map (\<lambda>j. p @ [j]) [Suc i..<n]))))"
        by (rule Suc.IH [OF Suc.prems(1) k])
      finally show ?thesis
        using ok True by (simp add: upt takeWhile_walkable_insert [OF notin])
    next
      case False
      have "walkNext doc cands sig (if i < n then Some (p @ [i]) else None) (cluster, processed)
            = walkNext doc cands sig (if Suc i < n then Some (p @ [Suc i]) else None)
                (cluster, processed)"
        using i ok False by (simp add: walkNext_step nxt del: walkNext.simps)
      also have "\<dots> = (cluster @ filter (similarTo doc sig)
                  (takeWhile (walkable cands processed) (map (\<lambda>j. p @ [j]) [Suc i..<n])),
             processed \<union> set (filter (similarTo doc sig)
                  (takeWhile (walkable cands processed) (map (\<lambda>j. p @ [j]) [Suc i..<n]))))"
        by (rule Suc.IH [OF Suc.prems(1) k])
      finally show ?thesis
        using ok False by (simp add: upt)
    qed
  qed
qed

lemma walkPrev_run:
  "walkPrev doc cands sig (if 0 < i then Some (p @ [i - 1]) else None) (cluster, processed)
   = (rev (filter (similarTo doc sig)
             (takeWhile (walkable cands processed) (map (\<lambda>j. p @ [j]) (rev [0..<i])))) @ cluster,
      processed \<union> set (filter (similarTo doc sig)
             (takeWhile (walkable cands processed) (map (\<lambda>j. p @ [j]) (rev [0..<i])))))"
proof (induction i arbitrary: cluster processed)
  case 0
  then show ?case by simp
next
  case (Suc i)
  have notin: "p @ [i] \<notin> set (map (\<lambda>j. p @ [j]) (rev [0..<i]))" by auto
  have prv: "previousElementSibling doc (p @ [i]) = (if 0 < i then Some (p @ [i - 1]) else None)"
    by (simp add: previousElementSibling_child)
  show ?case
  proof (cases "walkable cands processed (p @ [i])")
    case False
    then show ?thesis by (simp add: walkPrev_step del: walkPrev.simps)
  next
    case True
    note ok = this
    show ?thesis
    proof (cases "similarTo doc sig (p @ [i])")
      case True
      have "walkPrev doc cands sig (if 0 < Suc i then Some (p @ [Suc i - 1]) else None) (cluster, processed)
            = walkPrev doc cands sig (if 0 < i then Some (p @ [i - 1]) else None)
                ((p @ [i]) # cluster, insert (p @ [i]) processed)"
        using ok True by (simp add: walkPrev_step prv del: walkPrev.simps)
      also note Suc.IH
      finally show ?thesis
        using ok True by (simp add: takeWhile_walkable_insert [OF notin])
    next
      case False
      have "walkPrev doc cands sig (if 0 < Suc i then Some (p @ [Suc i - 1]) else None) (cluster, processed)
            = walkPrev doc cands sig (if 0 < i then Some (p @ [i - 1]) else None)
                (cluster, processed)"
        using ok False by (simp add: walkPrev_step prv del: walkPrev.simps)
      also note Suc.IH
      finally show ?thesis
        using ok False by simp
    qed
  qed
qed

text \<open>
  C5, amended. Each walk covers the siblings next to the seed up to the first one
  that is not a candidate or is already processed, and stops there; of the siblings it
  covers it takes those with a similar signature into the cluster and marks them
  processed, and passes the others.
\<close>

theorem walks_cover_run_of_unprocessed_candidates:
  "walkPrev doc cands sig (previousElementSibling doc el) (cluster, processed)
     = (rev (filter (similarTo doc sig)
               (takeWhile (walkable cands processed) (siblingsBefore doc el))) @ cluster,
        processed \<union> set (filter (similarTo doc sig)
               (takeWhile (walkable cands processed) (siblingsBefore doc el))))
   \<and> walkNext doc cands sig (nextElementSibling doc el) (cluster, processed)
     = (cluster @ filter (similarTo doc sig)
                  (takeWhile (walkable cands processed) (siblingsAfter doc el)),
        processed \<union> set (filter (similarTo doc sig)
                  (takeWhile (walkable cands processed) (siblingsAfter doc el))))"
proof (cases "el = []")
  case True
  then show ?thesis
    by (simp add: previousElementSibling_def nextElementSibling_def siblingsBefore_def
          siblingsAfter_def)
next
  case False
  then obtain p i where el: "el = p @ [i]"
    by (metis append_butlast_last_id)
  have prev: "previousElementSibling doc el = (if 0 < i then Some (p @ [i - 1]) else None)"
    by (simp add: el previousElementSibling_child)
  have nxt: "nextElementSibling doc el =
               (if Suc i < length (children (nodeAt doc p)) then Some (p @ [Suc i]) else None)"
    by (simp add: el nextElementSibling_child)
  show ?thesis
    unfolding prev nxt
    using walkPrev_run [where doc = doc and cands = cands and sig = sig and i = i and p = p
                          and cluster = cluster and processed = processed]
      walkNext_run [OF refl refl, where doc = doc and cands = cands and sig = sig and p = p
                      and i = "Suc i" and cluster = cluster and processed = processed]
    by (simp add: el siblingsBefore_def siblingsAfter_def)
qed

theorem walks_cover_run_of_unprocessed_candidates_witness:
  "takeWhile (walkable (candidateElements pageThree []) {[0]}) (siblingsAfter pageThree [0])
     = [[1], [2]]
   \<and> filter (similarTo pageThree (calculateElementSignature pageThree [0])) [[1], [2]] = [[2]]
   \<and> walkNext pageThree (candidateElements pageThree [])
        (calculateElementSignature pageThree [0]) (nextElementSibling pageThree [0])
        ([[0]], {[0]})
      = ([[0], [2]], {[0], [2]})"
proof -
  have a: "takeWhile (walkable (candidateElements pageThree []) {[0]}) (siblingsAfter pageThree [0])
     = [[1], [2]]" by code_simp
  have b: "filter (similarTo pageThree (calculateElementSignature pageThree [0])) [[1], [2]] = [[2]]"
    by code_simp
  from walks_cover_run_of_unprocessed_candidates
         [of pageThree "candidateElements pageThree []" "calculateElementSignature pageThree [0]"
             "[0]" "[[0]]" "{[0]}"] a b
  show ?thesis by auto
qed

end
